theory Spec2Isabelle
  imports Main
begin

section \<open>Data model\<close>

text \<open>
  The proxy service of \<^verbatim>\<open>package service\<close> and the hosts-file helper of
  \<^verbatim>\<open>package hostsFile\<close>. Go strings are byte strings: \<^typ>\<open>string\<close>.
\<close>

text \<open>
  \<^verbatim>\<open>url.URL\<close> of the Go standard library, with the fields it exports. The Director
  assigns \<^verbatim>\<open>Scheme\<close> and \<^verbatim>\<open>Host\<close>; the other fields are carried along.
\<close>

record URL =
  Scheme :: string
  Opaque :: string
  User :: "string option"
  Host :: string
  Path :: string
  RawPath :: string
  OmitHost :: bool
  ForceQuery :: bool
  RawQuery :: string
  Fragment :: string
  RawFragment :: string

text \<open>
  \<^verbatim>\<open>HostConfig\<close>: the type is declared outside the files at hand; these are the fields
  that \<^verbatim>\<open>makeTargetMap\<close> and \<^verbatim>\<open>loadTLSConfig\<close> read.
\<close>

record HostConfig =
  Name :: string
  DefaultTarget :: string
  EnableTLS :: bool
  TLSCertFile :: string
  TLSKeyFile :: string

text \<open>The part of \<^verbatim>\<open>http.Request\<close> that a Director can see and change.\<close>

record Request =
  Method :: string
  req_URL :: URL
  req_Header :: "(string \<times> string) list"
  req_Body :: string
  req_Host :: string
  RemoteAddr :: string
  RequestURI :: string

text \<open>\<^verbatim>\<open>tls.Config\<close> as \<^verbatim>\<open>loadTLSConfig\<close> fills it.\<close>

datatype TLSVersion = VersionTLS10 | VersionTLS11 | VersionTLS12 | VersionTLS13

datatype CurveID = CurveP256 | CurveP384 | CurveP521 | X25519

datatype CipherSuite =
    TLS_ECDHE_ECDSA_WITH_AES_128_GCM_SHA256
  | TLS_ECDHE_RSA_WITH_AES_128_GCM_SHA256
  | TLS_ECDHE_ECDSA_WITH_AES_256_GCM_SHA384
  | TLS_ECDHE_RSA_WITH_AES_256_GCM_SHA384
  | TLS_ECDHE_ECDSA_WITH_CHACHA20_POLY1305
  | TLS_ECDHE_RSA_WITH_CHACHA20_POLY1305

text \<open>A loaded key pair, remembered by the two files it was read from.\<close>

datatype Certificate = Certificate (certFile: string) (keyFile: string)

record tlsConfig =
  MinVersion :: TLSVersion
  CurvePreferences :: "CurveID list"
  CipherSuites :: "CipherSuite list"
  Certificates :: "Certificate list"

text \<open>
  \<^verbatim>\<open>http.Server\<close> as the two start functions configure it. \<^verbatim>\<open>Addr\<close> is
  \<^verbatim>\<open>":" + cast.ToString(port)\<close>; the model keeps the port. Timeouts are in seconds.
  The handler of both servers is the one proxy of the service.
\<close>

record Server =
  Addr_port :: int
  TLSConfig :: "tlsConfig option"
  ReadTimeout :: nat
  WriteTimeout :: nat
  MaxHeaderBytes :: nat

text \<open>
  The \<^verbatim>\<open>httputil.ReverseProxy\<close> that \<^verbatim>\<open>StartServer\<close> builds: \<^verbatim>\<open>Rewrite\<close> and
  \<^verbatim>\<open>ModifyResponse\<close> are nil, and the two closures are the functions \<open>Director\<close> and
  \<open>ErrorHandler\<close> below, so the value carries no data of its own.
\<close>

datatype ReverseProxy = DirectorAndErrorHandler

record Service =
  httpServerRunning :: bool
  tlsServerRunning :: bool
  targetMap :: "string \<rightharpoonup> URL"
  httpServer :: "Server option"
  tlsServer :: "Server option"
  proxy :: "ReverseProxy option"

text \<open>What \<^verbatim>\<open>emitErrorToFrontend\<close> and \<^verbatim>\<open>emitWarningToFrontend\<close> send.\<close>

datatype event = EmitError string | EmitWarning string

section \<open>Library functions\<close>

text \<open>
  \<^verbatim>\<open>strings.ToLower\<close> is a function of the library and maps Unicode text; the
  definitions below take it as the parameter \<open>lower\<close>. On ASCII text it is
  \<open>ascii_ToLower\<close>: the letters A to Z move to a to z, by setting the bit of value 32,
  and every other byte stays. The examples use \<open>ascii_ToLower\<close>, on ASCII host names
  only.
\<close>

definition lower_byte :: "char \<Rightarrow> char" where
  "lower_byte c =
     (let n = (of_char c :: nat) in
      if 65 \<le> n \<and> n \<le> 90 then
        (case c of Char b0 b1 b2 b3 b4 b5 b6 b7 \<Rightarrow> Char b0 b1 b2 b3 b4 True b6 b7)
      else c)"

definition ascii_ToLower :: "string \<Rightarrow> string" where
  "ascii_ToLower s = map lower_byte s"

text \<open>\<^verbatim>\<open>u.IsAbs()\<close>: a URL is absolute when it has a scheme.\<close>

definition IsAbs :: "URL \<Rightarrow> bool" where
  "IsAbs u = (Scheme u \<noteq> [])"

section \<open>Target registry\<close>

text \<open>
  \<^verbatim>\<open>makeTargetMap\<close>, lines 213 to 223. \<^verbatim>\<open>url.Parse\<close> is the library's parser, taken
  as the parameter \<open>parse\<close>: \<open>Inl\<close> is its error, \<open>Inr\<close> the parsed URL. The loop runs
  over \<^verbatim>\<open>config.Hosts\<close> in order, and a later entry overwrites an earlier one of the
  same name.
\<close>

fun makeTargetMap_loop ::
  "(string \<Rightarrow> string + URL) \<Rightarrow> HostConfig list \<Rightarrow> (string \<rightharpoonup> URL) \<Rightarrow> (string \<rightharpoonup> URL)" where
  "makeTargetMap_loop parse [] m = m"
| "makeTargetMap_loop parse (h # hs) m =
     makeTargetMap_loop parse hs
       (if DefaultTarget h \<noteq> [] then
          (case parse (DefaultTarget h) of
             Inr u \<Rightarrow> m(Name h \<mapsto> u)
           | Inl err \<Rightarrow> m)
        else m)"

definition makeTargetMap ::
  "(string \<Rightarrow> string + URL) \<Rightarrow> HostConfig list \<Rightarrow> Service \<Rightarrow> Service" where
  "makeTargetMap parse hosts s = s\<lparr>targetMap := makeTargetMap_loop parse hosts Map.empty\<rparr>"

text \<open>
  The key set as the specification words it: the lower-case names of the entries whose
  target is not empty and parses as an absolute URL.
\<close>

definition spec_registry_keys ::
  "(string \<Rightarrow> string) \<Rightarrow> (string \<Rightarrow> string + URL) \<Rightarrow> HostConfig list \<Rightarrow> string set" where
  "spec_registry_keys lower parse hosts =
     (\<lambda>h. lower (Name h)) `
       set (filter (\<lambda>h. DefaultTarget h \<noteq> [] \<and>
          (case parse (DefaultTarget h) of Inr u \<Rightarrow> IsAbs u | Inl err \<Rightarrow> False)) hosts)"

text \<open>The entries that the loop of \<^verbatim>\<open>makeTargetMap\<close> stores.\<close>

definition accepted_target :: "(string \<Rightarrow> string + URL) \<Rightarrow> HostConfig \<Rightarrow> bool" where
  "accepted_target parse h = (DefaultTarget h \<noteq> [] \<and> isl (parse (DefaultTarget h)) = False)"

text \<open>
  Two results of \<^verbatim>\<open>url.Parse\<close>, for the examples: an absolute URL with scheme and
  authority, and a path alone, which the parser accepts as a relative reference. Every
  other string is left as an error here.
\<close>

definition empty_URL :: URL where
  "empty_URL = \<lparr>Scheme = [], Opaque = [], User = None, Host = [], Path = [], RawPath = [],
     OmitHost = False, ForceQuery = False, RawQuery = [], Fragment = [], RawFragment = []\<rparr>"

definition parse_sample :: "string \<Rightarrow> string + URL" where
  "parse_sample raw =
     (if raw = ''http://127.0.0.1:9001''
        then Inr (empty_URL\<lparr>Scheme := ''http'', Host := ''127.0.0.1:9001''\<rparr>)
      else if raw = ''/up''
        then Inr (empty_URL\<lparr>Path := ''/up''\<rparr>)
      else Inl ''parse error'')"

section \<open>Director\<close>

text \<open>
  The \<^verbatim>\<open>Director\<close> closure, lines 122 to 130, reading the registry of the service;
  \<open>lower\<close> is \<^verbatim>\<open>strings.ToLower\<close>. The call of \<^verbatim>\<open>log.Println\<close> writes to the process
  log and touches neither the request nor the service.
\<close>

definition Director :: "(string \<Rightarrow> string) \<Rightarrow> Service \<Rightarrow> Request \<Rightarrow> Request" where
  "Director lower s req =
     (let hostName = lower (req_Host req) in
      case targetMap s hostName of
        Some target \<Rightarrow>
          req\<lparr>req_URL := (req_URL req)\<lparr>Scheme := Scheme target, Host := Host target\<rparr>\<rparr>
      | None \<Rightarrow> req)"

section \<open>TLS material\<close>

text \<open>
  \<^verbatim>\<open>loadTLSConfig\<close>, lines 183 to 211. \<^verbatim>\<open>tls.LoadX509KeyPair\<close> is the parameter
  \<open>load\<close>. The function returns the configuration together with the warnings it sent, in
  the order it sent them.
\<close>

definition load_warning :: "HostConfig \<Rightarrow> event" where
  "load_warning h = EmitWarning (''Load certificate for '' @ Name h @ '' failed'' @ [CHR 0x0A])"

definition tls_eligible :: "HostConfig \<Rightarrow> bool" where
  "tls_eligible h = (EnableTLS h \<and> TLSCertFile h \<noteq> [] \<and> TLSKeyFile h \<noteq> [])"

fun loadTLSConfig_loop ::
  "(string \<Rightarrow> string \<Rightarrow> string + Certificate) \<Rightarrow> HostConfig list \<Rightarrow>
     Certificate list \<times> event list \<Rightarrow> Certificate list \<times> event list" where
  "loadTLSConfig_loop load [] acc = acc"
| "loadTLSConfig_loop load (h # hs) (certs, warns) =
     loadTLSConfig_loop load hs
       (if EnableTLS h \<and> TLSCertFile h \<noteq> [] \<and> TLSKeyFile h \<noteq> [] then
          (case load (TLSCertFile h) (TLSKeyFile h) of
             Inl err \<Rightarrow> (certs, warns @ [load_warning h])
           | Inr cert \<Rightarrow> (certs @ [cert], warns))
        else (certs, warns))"

definition loadTLSConfig ::
  "(string \<Rightarrow> string \<Rightarrow> string + Certificate) \<Rightarrow> HostConfig list \<Rightarrow> tlsConfig \<times> event list" where
  "loadTLSConfig load hosts =
     (let (certs, warns) = loadTLSConfig_loop load hosts ([], []) in
      (\<lparr>MinVersion = VersionTLS12,
        CurvePreferences = [CurveP521, CurveP384, CurveP256],
        CipherSuites =
          [TLS_ECDHE_ECDSA_WITH_AES_128_GCM_SHA256,
           TLS_ECDHE_RSA_WITH_AES_128_GCM_SHA256,
           TLS_ECDHE_ECDSA_WITH_AES_256_GCM_SHA384,
           TLS_ECDHE_RSA_WITH_AES_256_GCM_SHA384,
           TLS_ECDHE_ECDSA_WITH_CHACHA20_POLY1305,
           TLS_ECDHE_RSA_WITH_CHACHA20_POLY1305],
        Certificates = certs\<rparr>,
       warns))"

text \<open>Whether the key pair of an entry fails to load.\<close>

definition load_fails :: "(string \<Rightarrow> string \<Rightarrow> string + Certificate) \<Rightarrow> HostConfig \<Rightarrow> bool" where
  "load_fails load h = isl (load (TLSCertFile h) (TLSKeyFile h))"

text \<open>A loader for the examples: the pair loads when the certificate file is \<open>ok.pem\<close>.\<close>

definition load_sample :: "string \<Rightarrow> string \<Rightarrow> string + Certificate" where
  "load_sample c k = (if c = ''ok.pem'' then Inr (Certificate c k) else Inl ''no such file'')"

section \<open>Example inputs\<close>

text \<open>The zero value of the \<^verbatim>\<open>Service\<close> struct: nothing runs, no server was created.\<close>

definition new_Service :: Service where
  "new_Service = \<lparr>httpServerRunning = False, tlsServerRunning = False, targetMap = Map.empty,
     httpServer = None, tlsServer = None, proxy = None\<rparr>"

definition sample_hosts :: "HostConfig list" where
  "sample_hosts =
     [\<lparr>Name = ''a.test'', DefaultTarget = ''http://127.0.0.1:9001'', EnableTLS = False,
        TLSCertFile = [], TLSKeyFile = []\<rparr>,
      \<lparr>Name = ''b.test'', DefaultTarget = ''/up'', EnableTLS = False,
        TLSCertFile = [], TLSKeyFile = []\<rparr>]"

definition capital_hosts :: "HostConfig list" where
  "capital_hosts =
     [\<lparr>Name = ''A.test'', DefaultTarget = ''http://127.0.0.1:9001'', EnableTLS = False,
        TLSCertFile = [], TLSKeyFile = []\<rparr>]"

definition tls_hosts :: "HostConfig list" where
  "tls_hosts =
     [\<lparr>Name = ''a.test'', DefaultTarget = [], EnableTLS = True,
        TLSCertFile = ''ok.pem'', TLSKeyFile = ''ok.key''\<rparr>,
      \<lparr>Name = ''b.test'', DefaultTarget = [], EnableTLS = True,
        TLSCertFile = ''bad.pem'', TLSKeyFile = ''bad.key''\<rparr>,
      \<lparr>Name = ''c.test'', DefaultTarget = [], EnableTLS = True,
        TLSCertFile = ''ok.pem'', TLSKeyFile = ''c.key''\<rparr>]"

text \<open>A service whose registry has the one key \<open>a.test\<close>, and a request for that host.\<close>

definition routed_Service :: Service where
  "routed_Service = new_Service\<lparr>targetMap :=
     [''a.test'' \<mapsto> empty_URL\<lparr>Scheme := ''http'', Host := ''127.0.0.1:9001''\<rparr>]\<rparr>"

definition sample_Request :: "string \<Rightarrow> Request" where
  "sample_Request h = \<lparr>Method = ''GET'',
     req_URL = empty_URL\<lparr>Path := ''/index.html'', RawQuery := ''q=1''\<rparr>,
     req_Header = [], req_Body = [], req_Host = h, RemoteAddr = ''127.0.0.1:50000'',
     RequestURI = ''/index.html?q=1''\<rparr>"

section \<open>The response writer and the error handler\<close>

text \<open>
  \<^verbatim>\<open>http.DetectContentType\<close>, as far as the error page needs it. The library looks at
  no more than the first 512 bytes, skips leading white space, and walks a table of
  signatures whose first seventeen entries are the HTML tags below; each of them gives
  the same type. A tag matches when the data starts with it, letters compared without
  case (the data byte loses the bit of value 32 where the signature has a capital), and
  the next byte ends a tag: a space or \<open>>\<close>. The rest of the table is the parameter
  \<open>other\<close>.
\<close>

definition isWS :: "char \<Rightarrow> bool" where
  "isWS c = (c \<in> {CHR 0x09, CHR 0x0A, CHR 0x0C, CHR 0x0D, CHR '' ''})"

definition isTT :: "char \<Rightarrow> bool" where
  "isTT c = (c = CHR '' '' \<or> c = CHR ''>'')"

definition fold_byte :: "char \<Rightarrow> char" where
  "fold_byte c = (case c of Char b0 b1 b2 b3 b4 b5 b6 b7 \<Rightarrow> Char b0 b1 b2 b3 b4 False b6 b7)"

definition is_capital :: "char \<Rightarrow> bool" where
  "is_capital b = (65 \<le> (of_char b :: nat) \<and> (of_char b :: nat) \<le> 90)"

fun htmlSig_match :: "string \<Rightarrow> string \<Rightarrow> bool" where
  "htmlSig_match [] [] = False"
| "htmlSig_match [] (d # ds) = isTT d"
| "htmlSig_match (b # bs) [] = False"
| "htmlSig_match (b # bs) (d # ds) =
     ((if is_capital b then fold_byte d else d) = b \<and> htmlSig_match bs ds)"

definition htmlSigs :: "string list" where
  "htmlSigs = [''<!DOCTYPE HTML'', ''<HTML'', ''<HEAD'', ''<SCRIPT'', ''<IFRAME'', ''<H1'',
     ''<DIV'', ''<FONT'', ''<TABLE'', ''<A'', ''<STYLE'', ''<TITLE'', ''<B'', ''<BODY'',
     ''<BR'', ''<P'', ''<!--'']"

definition DetectContentType :: "(string \<Rightarrow> string) \<Rightarrow> string \<Rightarrow> string" where
  "DetectContentType other data =
     (let d = take 512 data; rest = dropWhile isWS d in
      if list_ex (\<lambda>sig. htmlSig_match sig rest) htmlSigs
      then ''text/html; charset=utf-8''
      else other d)"

text \<open>
  The \<^verbatim>\<open>http.ResponseWriter\<close> that the server hands to a handler, as \<^verbatim>\<open>net/http\<close>
  implements it: the method of the request it answers, the header map of the handler,
  the status and the copy of the header map that \<^verbatim>\<open>WriteHeader\<close> takes, the bytes
  that wait in the buffer of 2048 bytes between the handler and the connection, and
  what went to the client: the header block, once it is fixed, and the body.
\<close>

record ResponseWriter =
  rw_Method :: string
  rw_Header :: "string \<rightharpoonup> string list"
  wroteHeader :: bool
  status :: nat
  cw_header :: "string \<rightharpoonup> string list"
  buffered :: string
  sent_header :: "(string \<rightharpoonup> string list) option"
  sent_body :: string

definition bodyAllowedForStatus :: "nat \<Rightarrow> bool" where
  "bodyAllowedForStatus code =
     (\<not> (100 \<le> code \<and> code \<le> 199) \<and> code \<noteq> 204 \<and> code \<noteq> 304)"

text \<open>
  \<^verbatim>\<open>WriteHeader\<close>: ignored after the first one; an informational status other than
  101 goes out at once and leaves the writer waiting for the final status; otherwise
  the status is set and the header map is copied.
\<close>

definition WriteHeader :: "nat \<Rightarrow> ResponseWriter \<Rightarrow> ResponseWriter" where
  "WriteHeader code w =
     (if wroteHeader w then w
      else if 100 \<le> code \<and> code \<le> 199 \<and> code \<noteq> 101 then w
      else w\<lparr>wroteHeader := True, status := code, cw_header := rw_Header w\<rparr>)"

definition header_Get :: "(string \<rightharpoonup> string list) \<Rightarrow> string \<Rightarrow> string" where
  "header_Get h k = (case h k of Some (v # vs) \<Rightarrow> v | Some [] \<Rightarrow> [] | None \<Rightarrow> [])"

definition suppressedHeaders :: "nat \<Rightarrow> string list" where
  "suppressedHeaders code =
     (if code = 304 then [''Content-Type'', ''Content-Length'', ''Transfer-Encoding'']
      else if \<not> bodyAllowedForStatus code then [''Content-Length'', ''Transfer-Encoding'']
      else [])"

text \<open>
  The header block that the connection writes with the first bytes \<open>p\<close> of the body
  (none when the handler wrote none). For a status with a body, a block with no
  \<open>Content-Type\<close> key and with blank \<open>Content-Encoding\<close> and \<open>Transfer-Encoding\<close> gets
  the \<open>Content-Type\<close> that \<^verbatim>\<open>DetectContentType\<close> finds in \<open>p\<close>, when \<open>p\<close> is not
  empty; for a status without a body the headers that describe one are dropped. The
  headers that the server adds on its own (the date, the length, the connection and
  transfer headers) are left out of the block.
\<close>

definition header_block ::
  "(string \<Rightarrow> string) \<Rightarrow> nat \<Rightarrow> (string \<rightharpoonup> string list) \<Rightarrow> string \<Rightarrow> (string \<rightharpoonup> string list)" where
  "header_block other code h p =
     (if bodyAllowedForStatus code then
        (if h ''Content-Type'' = None \<and> header_Get h ''Content-Encoding'' = []
            \<and> header_Get h ''Transfer-Encoding'' = [] \<and> p \<noteq> []
         then h(''Content-Type'' \<mapsto> [DetectContentType other p])
         else h)
      else fold (\<lambda>k m. m(k := None)) (suppressedHeaders code) h)"

text \<open>
  The write of the connection side (\<^verbatim>\<open>chunkWriter.Write\<close>): the first one fixes the
  header block from the bytes it is given; the bytes then go to the client, unless the
  request is a \<open>HEAD\<close>, whose body the server keeps to itself.
\<close>

definition cw_writeHeader :: "(string \<Rightarrow> string) \<Rightarrow> string \<Rightarrow> ResponseWriter \<Rightarrow> ResponseWriter" where
  "cw_writeHeader other p w =
     (case sent_header w of
        Some h \<Rightarrow> w
      | None \<Rightarrow> w\<lparr>sent_header := Some (header_block other (status w) (cw_header w) p)\<rparr>)"

definition cw_Write :: "(string \<Rightarrow> string) \<Rightarrow> string \<Rightarrow> ResponseWriter \<Rightarrow> ResponseWriter" where
  "cw_Write other p w =
     (let w1 = cw_writeHeader other p w in
      if rw_Method w1 = ''HEAD'' then w1 else w1\<lparr>sent_body := sent_body w1 @ p\<rparr>)"

text \<open>
  The write of the buffer (\<^verbatim>\<open>bufio.Writer.Write\<close> with 2048 bytes): data that fits
  waits in the buffer; data that does not fit goes through at once when the buffer is
  empty, and otherwise fills the buffer, which is flushed, and the rest is treated in
  the same way.
\<close>

definition bufw_Write :: "(string \<Rightarrow> string) \<Rightarrow> string \<Rightarrow> ResponseWriter \<Rightarrow> ResponseWriter" where
  "bufw_Write other p w =
     (let avail = 2048 - length (buffered w) in
      if length p \<le> avail then w\<lparr>buffered := buffered w @ p\<rparr>
      else if buffered w = [] then cw_Write other p w
      else
        (let w1 = (cw_Write other (buffered w @ take avail p) w)\<lparr>buffered := []\<rparr>;
             p1 = drop avail p
         in if length p1 \<le> 2048 then w1\<lparr>buffered := p1\<rparr> else cw_Write other p1 w1))"

text \<open>
  \<^verbatim>\<open>Write\<close> of the handler side: status 200 first when no status was set; empty data
  and data for a status that allows no body are dropped; the rest goes to the buffer.
  (A length that the handler declares in a \<open>Content-Length\<close> header, which the library
  holds the writes to, is not modelled.)
\<close>

definition Write :: "(string \<Rightarrow> string) \<Rightarrow> string \<Rightarrow> ResponseWriter \<Rightarrow> ResponseWriter" where
  "Write other data w0 =
     (let w = (if wroteHeader w0 then w0 else WriteHeader 200 w0) in
      if data = [] then w
      else if \<not> bodyAllowedForStatus (status w) then w
      else bufw_Write other data w)"

text \<open>
  What the server does when the handler has returned (\<^verbatim>\<open>finishRequest\<close>): status 200
  when none was set, the buffer flushed, and the header block written with no body
  bytes when no write has fixed it.
\<close>

definition finishRequest :: "(string \<Rightarrow> string) \<Rightarrow> ResponseWriter \<Rightarrow> ResponseWriter" where
  "finishRequest other w0 =
     (let w1 = (if wroteHeader w0 then w0 else WriteHeader 200 w0);
          w2 = (if buffered w1 = [] then w1
                else (cw_Write other (buffered w1) w1)\<lparr>buffered := []\<rparr>)
      in cw_writeHeader other [] w2)"

text \<open>
  The \<^verbatim>\<open>ErrorHandler\<close> closure, lines 132 to 137: status 502, then the page, with the
  text of the error in the place of \<^verbatim>\<open>%s\<close>. The closure can reach the service it
  was made in, the request and the writer; the outcome holds all three as the closure
  leaves them. \<open>error_response\<close> is the writer after the server has finished the
  request, which it does as soon as the handler returns.
\<close>

definition bad_gateway_html :: "string \<Rightarrow> string" where
  "bad_gateway_html msg =
     ''<div style='' @ [CHR 0x22] @ ''text-align: center'' @ [CHR 0x22] @
     ''><h2>Bad Gateway</h2><p>'' @ msg @ ''</p>''"

record handler_outcome =
  out_service :: Service
  out_request :: Request
  out_writer :: ResponseWriter

definition ErrorHandler ::
  "(string \<Rightarrow> string) \<Rightarrow> Service \<Rightarrow> ResponseWriter \<Rightarrow> Request \<Rightarrow> string \<Rightarrow> handler_outcome" where
  "ErrorHandler other s w r err =
     \<lparr>out_service = s, out_request = r,
      out_writer = Write other (bad_gateway_html err) (WriteHeader 502 w)\<rparr>"

definition error_response ::
  "(string \<Rightarrow> string) \<Rightarrow> Service \<Rightarrow> ResponseWriter \<Rightarrow> Request \<Rightarrow> string \<Rightarrow> ResponseWriter" where
  "error_response other s w r err = finishRequest other (out_writer (ErrorHandler other s w r err))"

text \<open>The writer of a request that has had no answer yet.\<close>

definition fresh_writer :: "ResponseWriter \<Rightarrow> bool" where
  "fresh_writer w = (wroteHeader w = False \<and> buffered w = [] \<and> sent_header w = None
     \<and> sent_body w = [] \<and> rw_Header w ''Content-Type'' = None
     \<and> header_Get (rw_Header w) ''Content-Encoding'' = []
     \<and> header_Get (rw_Header w) ''Transfer-Encoding'' = [])"

definition new_ResponseWriter :: "string \<Rightarrow> ResponseWriter" where
  "new_ResponseWriter method = \<lparr>rw_Method = method, rw_Header = Map.empty, wroteHeader = False,
     status = 0, cw_header = Map.empty, buffered = [], sent_header = None, sent_body = []\<rparr>"

section \<open>The hosts file\<close>

text \<open>
  \<^verbatim>\<open>WriteHostsFile\<close>, lines 9 to 26 of the \<^verbatim>\<open>hostsFile\<close> package. The file system is
  the content of \<^verbatim>\<open>/etc/hosts\<close> and the outcome of opening it for appending
  (\<open>None\<close>: it opens). Opening with \<^verbatim>\<open>O_APPEND|O_WRONLY\<close> neither creates nor
  truncates, and closing writes nothing. \<^verbatim>\<open>WriteString\<close> of a \<^verbatim>\<open>bytes.Buffer\<close>
  appends and returns a nil error. The function has no write to the file. The result
  holds the returned error, the content of the file afterwards, and the buffer as it
  stands when the function returns (\<open>None\<close> when it was never made).
\<close>

record hosts_outcome =
  returned_err :: "string option"
  file_after :: string
  data_buffer :: "string option"

definition Buffer_WriteString :: "string \<Rightarrow> string \<Rightarrow> string \<times> string option" where
  "Buffer_WriteString buf s = (buf @ s, None)"

definition hosts_line :: "string \<Rightarrow> string" where
  "hosts_line line = ''127.0.0.1 '' @ line @ '' # Auto generated by local proxy'' @ [CHR 0x0A]"

fun WriteHostsFile_loop :: "string list \<Rightarrow> string \<Rightarrow> string \<times> string option" where
  "WriteHostsFile_loop [] buf = (buf, None)"
| "WriteHostsFile_loop (line # rest) buf =
     (case Buffer_WriteString buf (hosts_line line) of
        (buf', Some err) \<Rightarrow> (buf', Some err)
      | (buf', None) \<Rightarrow> WriteHostsFile_loop rest buf')"

definition WriteHostsFile :: "string option \<Rightarrow> string \<Rightarrow> string list \<Rightarrow> hosts_outcome" where
  "WriteHostsFile open_err content domains =
     (case open_err of
        Some err \<Rightarrow> \<lparr>returned_err = Some err, file_after = content, data_buffer = None\<rparr>
      | None \<Rightarrow>
          (case WriteHostsFile_loop domains [CHR 0x0A] of
             (buf, Some err) \<Rightarrow>
               \<lparr>returned_err = Some err, file_after = content, data_buffer = Some buf\<rparr>
           | (buf, None) \<Rightarrow>
               \<lparr>returned_err = None, file_after = content, data_buffer = Some buf\<rparr>))"

section \<open>Shutdown\<close>

text \<open>
  What the service does to the world outside, in the order it does it: an event sent to
  the front end, and the calls whose outcome the environment decides.
\<close>

datatype proto = HTTP | TLS

datatype effect =
    Emit event
  | CallShutdown proto
  | CallListen proto int
  | CallServe proto
  | CallDone
  | CallAddHosts
  | CallRemoveHosts

text \<open>
  The environment of one call of \<^verbatim>\<open>ShutdownServer\<close>: what \<^verbatim>\<open>Shutdown\<close> of each
  server returns, and what \<^verbatim>\<open>removeHostsFileRecord\<close> returns (\<open>None\<close> is nil).
\<close>

record shutdown_env =
  Shutdown_err :: "proto \<Rightarrow> string option"
  removeHosts_err :: "string option"

text \<open>
  \<^verbatim>\<open>ShutdownServer\<close>, lines 153 to 174. The result holds the service afterwards, the
  effects of the call itself, and the effects of the goroutine it starts at lines 169 to
  173, which runs detached from the call.
\<close>

record shutdown_outcome =
  service_after :: Service
  call_effects :: "effect list"
  detached_effects :: "effect list"

definition report :: "string option \<Rightarrow> effect list" where
  "report err = (case err of Some msg \<Rightarrow> [Emit (EmitError msg)] | None \<Rightarrow> [])"

definition removeHosts_goroutine :: "shutdown_env \<Rightarrow> effect list" where
  "removeHosts_goroutine env = CallRemoveHosts # report (removeHosts_err env)"

definition ShutdownServer :: "shutdown_env \<Rightarrow> Service \<Rightarrow> shutdown_outcome" where
  "ShutdownServer env s =
     (let (s1, e1) =
            (case httpServer s of
               Some srv \<Rightarrow>
                 (s\<lparr>httpServerRunning := False\<rparr>,
                  CallShutdown HTTP # report (Shutdown_err env HTTP))
             | None \<Rightarrow> (s, []));
          (s2, e2) =
            (case tlsServer s1 of
               Some srv \<Rightarrow>
                 (s1\<lparr>tlsServerRunning := False\<rparr>,
                  CallShutdown TLS # report (Shutdown_err env TLS))
             | None \<Rightarrow> (s1, []))
      in \<lparr>service_after = s2, call_effects = e1 @ e2,
          detached_effects = removeHosts_goroutine env\<rparr>)"

text \<open>The error events among some effects.\<close>

fun is_error_report :: "effect \<Rightarrow> bool" where
  "is_error_report (Emit (EmitError msg)) = True"
| "is_error_report e = False"

definition error_reports :: "effect list \<Rightarrow> effect list" where
  "error_reports es = filter is_error_report es"

text \<open>
  A running flag is set only for a server that was created: \<^verbatim>\<open>startHttpServer\<close> and
  \<^verbatim>\<open>startTlsServer\<close> assign the server before they set the flag, and nothing sets a
  server back to nil.
\<close>

definition servers_created :: "Service \<Rightarrow> bool" where
  "servers_created s =
     ((httpServerRunning s = False \<or> httpServer s \<noteq> None)
      \<and> (tlsServerRunning s = False \<or> tlsServer s \<noteq> None))"

text \<open>Environments for the examples, and a service with both servers up.\<close>

definition quiet_env :: shutdown_env where
  "quiet_env = \<lparr>Shutdown_err = (\<lambda>p. None), removeHosts_err = None\<rparr>"

definition denied_env :: shutdown_env where
  "denied_env = \<lparr>Shutdown_err = (\<lambda>p. None),
     removeHosts_err = Some ''open /etc/hosts: permission denied''\<rparr>"

definition sample_Server :: "int \<Rightarrow> Server" where
  "sample_Server port = \<lparr>Addr_port = port, TLSConfig = None, ReadTimeout = 10,
     WriteTimeout = 10, MaxHeaderBytes = 2 ^ 20\<rparr>"

definition running_Service :: Service where
  "running_Service = new_Service\<lparr>httpServerRunning := True, tlsServerRunning := True,
     httpServer := Some (sample_Server 80), tlsServer := Some (sample_Server 443)\<rparr>"

section \<open>Start of the service\<close>

text \<open>
  \<^verbatim>\<open>StartServer\<close> runs with three goroutines it starts: the one that adds the hosts
  file records, \<^verbatim>\<open>startHttpServer\<close> and \<^verbatim>\<open>startTlsServer\<close>. The model is a step
  function over a configuration that holds the service, the counter of the wait group,
  a program counter for each of the four threads, the return value, and the effects so
  far, each with the thread it came from. A program counter is named after the source
  line that the thread runs next; one that carries a value holds the local variable the
  thread needs there. A schedule, the list of the threads in the order they get to run,
  stands for the interleaving; a thread that cannot move (not started, finished, or
  waiting at \<^verbatim>\<open>wg.Wait\<close>) leaves the configuration as it is. Reads and writes of the
  fields of the service take effect in the order of the schedule.
\<close>

datatype thread = MainT | HostsT | HttpT | TlsT

text \<open>
  What \<^verbatim>\<open>Serve\<close> returns: \<^verbatim>\<open>http.ErrServerClosed\<close> after a shutdown, or another
  error.
\<close>

datatype serve_error = ErrServerClosed | ServeFailed string

text \<open>
  The environment of one start: the configuration (\<^verbatim>\<open>config.Hosts\<close> and the two
  ports of \<^verbatim>\<open>config.Setting\<close>), the library functions \<^verbatim>\<open>url.Parse\<close> and
  \<^verbatim>\<open>tls.LoadX509KeyPair\<close>, and the outcome of the calls that reach the outside:
  \<^verbatim>\<open>addHostsFileRecord\<close>, \<^verbatim>\<open>net.Listen\<close> or \<^verbatim>\<open>tls.Listen\<close> for each protocol, and
  \<^verbatim>\<open>Serve\<close> when it returns (\<open>None\<close> is a nil error).
\<close>

record start_env =
  Hosts :: "HostConfig list"
  HttpPort :: int
  HttpsPort :: int
  url_Parse :: "string \<Rightarrow> string + URL"
  LoadX509KeyPair :: "string \<Rightarrow> string \<Rightarrow> string + Certificate"
  addHosts_err :: "string option"
  Listen_err :: "proto \<Rightarrow> string option"
  Serve_err :: "proto \<Rightarrow> serve_error option"

datatype main_pc =
  M112 | M118 | M120 | M139 | M140 | M143 | M146 | M148 | M150 | M_returned

datatype hosts_pc = A_idle | A113 | A114 string | A_exit

datatype http_pc =
    H_idle | H226 | H234 | H236 string | H237 | H240 | H241 | H242
  | H_serving | H243 "serve_error option" | H246 | H_exit

datatype tls_pc =
    T_idle | T250 | T252 tlsConfig | T253 | T254 | T258 tlsConfig | T266 tlsConfig
  | T268 string | T269 | T272 | T273 | T274 | T_serving | T275 "serve_error option"
  | T278 | T_exit

record config =
  svc :: Service
  wg :: int
  main_at :: main_pc
  hosts_at :: hosts_pc
  http_at :: http_pc
  tls_at :: tls_pc
  returned :: "bool option"
  trace :: "(thread \<times> effect) list"

definition start_config :: "Service \<Rightarrow> config" where
  "start_config s = \<lparr>svc = s, wg = 0, main_at = M112, hosts_at = A_idle, http_at = H_idle,
     tls_at = T_idle, returned = None, trace = []\<rparr>"

definition emit :: "thread \<Rightarrow> effect \<Rightarrow> config \<Rightarrow> config" where
  "emit t e c = c\<lparr>trace := trace c @ [(t, e)]\<rparr>"

text \<open>
  The server values of lines 226 to 232 and 258 to 265: ten seconds for both timeouts,
  \<open>1 << 20\<close> header bytes.
\<close>

definition new_httpServer :: "start_env \<Rightarrow> Server" where
  "new_httpServer env = \<lparr>Addr_port = HttpPort env, TLSConfig = None, ReadTimeout = 10,
     WriteTimeout = 10, MaxHeaderBytes = 2 ^ 20\<rparr>"

definition new_tlsServer :: "start_env \<Rightarrow> tlsConfig \<Rightarrow> Server" where
  "new_tlsServer env cfg = \<lparr>Addr_port = HttpsPort env, TLSConfig = Some cfg, ReadTimeout = 10,
     WriteTimeout = 10, MaxHeaderBytes = 2 ^ 20\<rparr>"

text \<open>
  The body of \<^verbatim>\<open>StartServer\<close>, lines 112 to 150. \<^verbatim>\<open>wg.Wait\<close> at line 148 lets the
  thread pass when the counter is zero. Line 150 reads the two flags and returns.
\<close>

definition main_step :: "start_env \<Rightarrow> config \<Rightarrow> config" where
  "main_step env c =
     (case main_at c of
        M112 \<Rightarrow> c\<lparr>hosts_at := A113, main_at := M118\<rparr>
      | M118 \<Rightarrow> c\<lparr>svc := makeTargetMap (url_Parse env) (Hosts env) (svc c), main_at := M120\<rparr>
      | M120 \<Rightarrow> c\<lparr>svc := (svc c)\<lparr>proxy := Some DirectorAndErrorHandler\<rparr>, main_at := M139\<rparr>
      | M139 \<Rightarrow> c\<lparr>wg := 0, main_at := M140\<rparr>
      | M140 \<Rightarrow> c\<lparr>wg := wg c + 2, main_at := M143\<rparr>
      | M143 \<Rightarrow> c\<lparr>http_at := H226, main_at := M146\<rparr>
      | M146 \<Rightarrow> c\<lparr>tls_at := T250, main_at := M148\<rparr>
      | M148 \<Rightarrow> (if wg c = 0 then c\<lparr>main_at := M150\<rparr> else c)
      | M150 \<Rightarrow>
          c\<lparr>returned := Some (httpServerRunning (svc c) \<or> tlsServerRunning (svc c)),
            main_at := M_returned\<rparr>
      | M_returned \<Rightarrow> c)"

text \<open>The goroutine of lines 112 to 116.\<close>

definition hosts_step :: "start_env \<Rightarrow> config \<Rightarrow> config" where
  "hosts_step env c =
     (case hosts_at c of
        A_idle \<Rightarrow> c
      | A113 \<Rightarrow>
          (emit HostsT CallAddHosts c)
            \<lparr>hosts_at := (case addHosts_err env of Some err \<Rightarrow> A114 err | None \<Rightarrow> A_exit)\<rparr>
      | A114 err \<Rightarrow> (emit HostsT (Emit (EmitError err)) c)\<lparr>hosts_at := A_exit\<rparr>
      | A_exit \<Rightarrow> c)"

text \<open>
  \<^verbatim>\<open>startHttpServer\<close>, lines 225 to 247. At \<open>H_serving\<close> the thread is inside
  \<^verbatim>\<open>Serve\<close>; its step there is the return of \<^verbatim>\<open>Serve\<close>, which a schedule may never
  take.
\<close>

definition serve_report :: "thread \<Rightarrow> serve_error option \<Rightarrow> config \<Rightarrow> config" where
  "serve_report t r c =
     (case r of
        Some (ServeFailed msg) \<Rightarrow> emit t (Emit (EmitError msg)) c
      | Some ErrServerClosed \<Rightarrow> c
      | None \<Rightarrow> c)"

definition http_step :: "start_env \<Rightarrow> config \<Rightarrow> config" where
  "http_step env c =
     (case http_at c of
        H_idle \<Rightarrow> c
      | H226 \<Rightarrow> c\<lparr>svc := (svc c)\<lparr>httpServer := Some (new_httpServer env)\<rparr>, http_at := H234\<rparr>
      | H234 \<Rightarrow>
          (emit HttpT (CallListen HTTP (HttpPort env)) c)
            \<lparr>http_at := (case Listen_err env HTTP of Some err \<Rightarrow> H236 err | None \<Rightarrow> H240)\<rparr>
      | H236 err \<Rightarrow> (emit HttpT (Emit (EmitError err)) c)\<lparr>http_at := H237\<rparr>
      | H237 \<Rightarrow> (emit HttpT CallDone c)\<lparr>wg := wg c - 1, http_at := H_exit\<rparr>
      | H240 \<Rightarrow> c\<lparr>svc := (svc c)\<lparr>httpServerRunning := True\<rparr>, http_at := H241\<rparr>
      | H241 \<Rightarrow> (emit HttpT CallDone c)\<lparr>wg := wg c - 1, http_at := H242\<rparr>
      | H242 \<Rightarrow> (emit HttpT (CallServe HTTP) c)\<lparr>http_at := H_serving\<rparr>
      | H_serving \<Rightarrow> c\<lparr>http_at := H243 (Serve_err env HTTP)\<rparr>
      | H243 r \<Rightarrow> (serve_report HttpT r c)\<lparr>http_at := H246\<rparr>
      | H246 \<Rightarrow> c\<lparr>svc := (svc c)\<lparr>httpServerRunning := False\<rparr>, http_at := H_exit\<rparr>
      | H_exit \<Rightarrow> c)"

text \<open>
  \<^verbatim>\<open>startTlsServer\<close>, lines 249 to 279. Line 250 runs \<open>loadTLSConfig\<close>, whose
  warnings go out in its order.
\<close>

definition tls_step :: "start_env \<Rightarrow> config \<Rightarrow> config" where
  "tls_step env c =
     (case tls_at c of
        T_idle \<Rightarrow> c
      | T250 \<Rightarrow>
          (let (cfg, warns) = loadTLSConfig (LoadX509KeyPair env) (Hosts env) in
           c\<lparr>trace := trace c @ map (\<lambda>w. (TlsT, Emit w)) warns, tls_at := T252 cfg\<rparr>)
      | T252 cfg \<Rightarrow>
          (if length (Certificates cfg) = 0 then c\<lparr>tls_at := T253\<rparr> else c\<lparr>tls_at := T258 cfg\<rparr>)
      | T253 \<Rightarrow> c\<lparr>svc := (svc c)\<lparr>tlsServerRunning := False\<rparr>, tls_at := T254\<rparr>
      | T254 \<Rightarrow> (emit TlsT CallDone c)\<lparr>wg := wg c - 1, tls_at := T_exit\<rparr>
      | T258 cfg \<Rightarrow>
          c\<lparr>svc := (svc c)\<lparr>tlsServer := Some (new_tlsServer env cfg)\<rparr>, tls_at := T266 cfg\<rparr>
      | T266 cfg \<Rightarrow>
          (emit TlsT (CallListen TLS (HttpsPort env)) c)
            \<lparr>tls_at := (case Listen_err env TLS of Some err \<Rightarrow> T268 err | None \<Rightarrow> T272)\<rparr>
      | T268 err \<Rightarrow> (emit TlsT (Emit (EmitError err)) c)\<lparr>tls_at := T269\<rparr>
      | T269 \<Rightarrow> (emit TlsT CallDone c)\<lparr>wg := wg c - 1, tls_at := T_exit\<rparr>
      | T272 \<Rightarrow> c\<lparr>svc := (svc c)\<lparr>tlsServerRunning := True\<rparr>, tls_at := T273\<rparr>
      | T273 \<Rightarrow> (emit TlsT CallDone c)\<lparr>wg := wg c - 1, tls_at := T274\<rparr>
      | T274 \<Rightarrow> (emit TlsT (CallServe TLS) c)\<lparr>tls_at := T_serving\<rparr>
      | T_serving \<Rightarrow> c\<lparr>tls_at := T275 (Serve_err env TLS)\<rparr>
      | T275 r \<Rightarrow> (serve_report TlsT r c)\<lparr>tls_at := T278\<rparr>
      | T278 \<Rightarrow> c\<lparr>svc := (svc c)\<lparr>tlsServerRunning := False\<rparr>, tls_at := T_exit\<rparr>
      | T_exit \<Rightarrow> c)"

definition step :: "start_env \<Rightarrow> config \<Rightarrow> thread \<Rightarrow> config" where
  "step env c t =
     (case t of
        MainT \<Rightarrow> main_step env c
      | HostsT \<Rightarrow> hosts_step env c
      | HttpT \<Rightarrow> http_step env c
      | TlsT \<Rightarrow> tls_step env c)"

definition run :: "start_env \<Rightarrow> thread list \<Rightarrow> config \<Rightarrow> config" where
  "run env sched c = foldl (step env) c sched"

definition StartServer :: "start_env \<Rightarrow> thread list \<Rightarrow> Service \<Rightarrow> config" where
  "StartServer env sched s = run env sched (start_config s)"

section \<open>The barrier\<close>

text \<open>
  Where a thread stands relative to the barrier. A start function has resolved its bind
  once it is past its \<^verbatim>\<open>wg.Done\<close>: it serves (or \<^verbatim>\<open>Serve\<close> has returned), or it
  has left after an error of the listen call, or it has left because there is no
  certificate.
\<close>

fun http_resolved :: "http_pc \<Rightarrow> bool" where
  "http_resolved H242 = True"
| "http_resolved H_serving = True"
| "http_resolved (H243 r) = True"
| "http_resolved H246 = True"
| "http_resolved H_exit = True"
| "http_resolved pc = False"

fun tls_resolved :: "tls_pc \<Rightarrow> bool" where
  "tls_resolved T274 = True"
| "tls_resolved T_serving = True"
| "tls_resolved (T275 r) = True"
| "tls_resolved T278 = True"
| "tls_resolved T_exit = True"
| "tls_resolved pc = False"

fun wg_added :: "main_pc \<Rightarrow> bool" where
  "wg_added M143 = True"
| "wg_added M146 = True"
| "wg_added M148 = True"
| "wg_added M150 = True"
| "wg_added M_returned = True"
| "wg_added pc = False"

fun http_started :: "main_pc \<Rightarrow> bool" where
  "http_started M146 = True"
| "http_started M148 = True"
| "http_started M150 = True"
| "http_started M_returned = True"
| "http_started pc = False"

fun tls_started :: "main_pc \<Rightarrow> bool" where
  "tls_started M148 = True"
| "tls_started M150 = True"
| "tls_started M_returned = True"
| "tls_started pc = False"

fun passed_wait :: "main_pc \<Rightarrow> bool" where
  "passed_wait M150 = True"
| "passed_wait M_returned = True"
| "passed_wait pc = False"

text \<open>How often a thread has called \<^verbatim>\<open>wg.Done\<close>, and whether it has entered \<^verbatim>\<open>Serve\<close>.\<close>

definition dones :: "thread \<Rightarrow> config \<Rightarrow> nat" where
  "dones t c = length (filter (\<lambda>x. x = (t, CallDone)) (trace c))"

definition serves :: "thread \<Rightarrow> proto \<Rightarrow> config \<Rightarrow> nat" where
  "serves t p c = length (filter (\<lambda>x. x = (t, CallServe p)) (trace c))"

definition barrier_inv :: "config \<Rightarrow> bool" where
  "barrier_inv c =
     ((http_started (main_at c) \<or> http_at c = H_idle)
      \<and> (tls_started (main_at c) \<or> tls_at c = T_idle)
      \<and> dones HttpT c = (if http_resolved (http_at c) then 1 else 0)
      \<and> dones TlsT c = (if tls_resolved (tls_at c) then 1 else 0)
      \<and> dones MainT c = 0 \<and> dones HostsT c = 0
      \<and> (main_at c = M140 \<longrightarrow> wg c = 0)
      \<and> (wg_added (main_at c) \<longrightarrow> wg c = 2 - int (dones HttpT c) - int (dones TlsT c))
      \<and> (passed_wait (main_at c) \<longrightarrow> http_resolved (http_at c) \<and> tls_resolved (tls_at c))
      \<and> (serves HttpT HTTP c = 0 \<or> http_resolved (http_at c))
      \<and> (serves TlsT TLS c = 0 \<or> tls_resolved (tls_at c))
      \<and> (returned c \<noteq> None) = (main_at c = M_returned))"

section \<open>The running flags during a start\<close>

text \<open>
  The places of \<^verbatim>\<open>startHttpServer\<close> between the assignment of line 240 and that of
  line 246, where the flag is set; the places that only a successful listen call leads
  to; and the places that only a failed one leads to. The same for \<^verbatim>\<open>startTlsServer\<close>.
\<close>

fun http_flag_set :: "http_pc \<Rightarrow> bool" where
  "http_flag_set H241 = True"
| "http_flag_set H242 = True"
| "http_flag_set H_serving = True"
| "http_flag_set (H243 r) = True"
| "http_flag_set H246 = True"
| "http_flag_set pc = False"

fun http_bound :: "http_pc \<Rightarrow> bool" where
  "http_bound H240 = True"
| "http_bound pc = http_flag_set pc"

fun http_failed :: "http_pc \<Rightarrow> bool" where
  "http_failed (H236 err) = True"
| "http_failed H237 = True"
| "http_failed pc = False"

fun tls_flag_set :: "tls_pc \<Rightarrow> bool" where
  "tls_flag_set T273 = True"
| "tls_flag_set T274 = True"
| "tls_flag_set T_serving = True"
| "tls_flag_set (T275 r) = True"
| "tls_flag_set T278 = True"
| "tls_flag_set pc = False"

fun tls_bound :: "tls_pc \<Rightarrow> bool" where
  "tls_bound T272 = True"
| "tls_bound pc = tls_flag_set pc"

fun tls_failed :: "tls_pc \<Rightarrow> bool" where
  "tls_failed (T268 err) = True"
| "tls_failed T269 = True"
| "tls_failed pc = False"

text \<open>The certificates that line 250 loads in this environment.\<close>

definition loaded_certs :: "start_env \<Rightarrow> Certificate list" where
  "loaded_certs env = Certificates (fst (loadTLSConfig (LoadX509KeyPair env) (Hosts env)))"

text \<open>
  Which places of \<^verbatim>\<open>startTlsServer\<close> agree with the loaded certificates: the skip of
  lines 253 to 255 needs none, everything from line 258 on needs one.
\<close>

fun tls_path_ok :: "start_env \<Rightarrow> tls_pc \<Rightarrow> bool" where
  "tls_path_ok env T_idle = True"
| "tls_path_ok env T250 = True"
| "tls_path_ok env (T252 cfg) = (Certificates cfg = loaded_certs env)"
| "tls_path_ok env T253 = (loaded_certs env = [])"
| "tls_path_ok env T254 = (loaded_certs env = [])"
| "tls_path_ok env T_exit = True"
| "tls_path_ok env pc = (loaded_certs env \<noteq> [])"

text \<open>
  The effects of a start without certificates: the TLS thread sends warnings and calls
  \<^verbatim>\<open>wg.Done\<close>, and has no other effect; no listen call, no error.
\<close>

fun tls_quiet :: "thread \<times> effect \<Rightarrow> bool" where
  "tls_quiet (TlsT, Emit (EmitWarning msg)) = True"
| "tls_quiet (TlsT, CallDone) = True"
| "tls_quiet (TlsT, e) = False"
| "tls_quiet (t, e) = True"

definition tls_inv :: "start_env \<Rightarrow> config \<Rightarrow> bool" where
  "tls_inv env c =
     (tls_path_ok env (tls_at c)
      \<and> (tls_bound (tls_at c) \<longrightarrow> Listen_err env TLS = None)
      \<and> (tls_failed (tls_at c) \<longrightarrow> Listen_err env TLS \<noteq> None)
      \<and> (loaded_certs env = [] \<longrightarrow> list_all tls_quiet (trace c))
      \<and> (loaded_certs env = [] \<and> (tls_at c = T254 \<or> tls_at c = T_exit)
           \<longrightarrow> tlsServerRunning (svc c) = False))"

definition http_inv :: "start_env \<Rightarrow> config \<Rightarrow> bool" where
  "http_inv env c =
     (httpServerRunning (svc c) = http_flag_set (http_at c)
      \<and> (http_bound (http_at c) \<longrightarrow> Listen_err env HTTP = None)
      \<and> (http_failed (http_at c) \<longrightarrow> Listen_err env HTTP \<noteq> None))"

definition tls_flag_inv :: "config \<Rightarrow> bool" where
  "tls_flag_inv c = (tlsServerRunning (svc c) = tls_flag_set (tls_at c))"

text \<open>The places of \<^verbatim>\<open>startTlsServer\<close> from line 266 to line 278, after the server was made.\<close>

fun tls_server_made :: "tls_pc \<Rightarrow> bool" where
  "tls_server_made (T266 cfg) = True"
| "tls_server_made (T268 err) = True"
| "tls_server_made T269 = True"
| "tls_server_made pc = tls_bound pc"

definition created_inv :: "config \<Rightarrow> bool" where
  "created_inv c =
     (servers_created (svc c)
      \<and> (http_at c = H_idle \<or> http_at c = H226 \<or> httpServer (svc c) \<noteq> None)
      \<and> (tls_server_made (tls_at c) \<longrightarrow> tlsServer (svc c) \<noteq> None))"

section \<open>The effects of a start function\<close>

text \<open>
  The effects of one thread, in their order, and what they have to be at each place of
  a start function. The bind of a protocol is its listen call followed, when the call
  fails, by the report of its error. \<^verbatim>\<open>startHttpServer\<close> binds, calls \<^verbatim>\<open>wg.Done\<close>
  and, when it is bound, enters \<^verbatim>\<open>Serve\<close>, whose error it reports when \<^verbatim>\<open>Serve\<close>
  returns. \<^verbatim>\<open>startTlsServer\<close> first sends the warnings of \<open>loadTLSConfig\<close>; without a
  certificate it then calls \<^verbatim>\<open>wg.Done\<close> and ends, with one it goes on as
  \<^verbatim>\<open>startHttpServer\<close> does.
\<close>

definition thread_trace :: "thread \<Rightarrow> config \<Rightarrow> effect list" where
  "thread_trace t c = map snd (filter (\<lambda>x. fst x = t) (trace c))"










section \<open>Schedules and environments for the examples\<close>

text \<open>
  The schedule that lets \<^verbatim>\<open>StartServer\<close> start its goroutines, then runs each of them
  as far as it gets before the return of \<^verbatim>\<open>Serve\<close>, and then lets \<^verbatim>\<open>StartServer\<close>
  pass the barrier and return.
\<close>

definition sequential_schedule :: "thread list" where
  "sequential_schedule =
     [MainT, MainT, MainT, MainT, MainT, MainT, MainT,
      HostsT, HostsT,
      HttpT, HttpT, HttpT, HttpT, HttpT,
      TlsT, TlsT, TlsT, TlsT, TlsT, TlsT, TlsT,
      MainT, MainT]"

text \<open>
  Three environments: both ports free and two certificates that load; the HTTP port
  free and no host with TLS; the HTTP port taken and no host with TLS.
\<close>

definition up_env :: start_env where
  "up_env = \<lparr>Hosts = tls_hosts, HttpPort = 80, HttpsPort = 443, url_Parse = parse_sample,
     LoadX509KeyPair = load_sample, addHosts_err = None, Listen_err = (\<lambda>p. None),
     Serve_err = (\<lambda>p. Some ErrServerClosed)\<rparr>"

definition plain_env :: start_env where
  "plain_env = \<lparr>Hosts = sample_hosts, HttpPort = 80, HttpsPort = 443, url_Parse = parse_sample,
     LoadX509KeyPair = load_sample, addHosts_err = None, Listen_err = (\<lambda>p. None),
     Serve_err = (\<lambda>p. Some ErrServerClosed)\<rparr>"

definition busy_env :: start_env where
  "busy_env = \<lparr>Hosts = sample_hosts, HttpPort = 80, HttpsPort = 443, url_Parse = parse_sample,
     LoadX509KeyPair = load_sample, addHosts_err = None,
     Listen_err = (\<lambda>p. Some ''listen tcp :80: bind: address already in use''),
     Serve_err = (\<lambda>p. Some ErrServerClosed)\<rparr>"

text \<open>
  The service that a start in \<open>plain_env\<close> leaves behind: HTTP is serving. A second
  start of this service finds the port taken.
\<close>

definition served_Service :: Service where
  "served_Service = \<lparr>httpServerRunning = True, tlsServerRunning = False,
     targetMap = makeTargetMap_loop parse_sample sample_hosts Map.empty,
     httpServer = Some (sample_Server 80), tlsServer = None,
     proxy = Some DirectorAndErrorHandler\<rparr>"

text \<open>The same schedule up to the step that runs line 150.\<close>

definition before_return :: "thread list" where
  "before_return =
     [MainT, MainT, MainT, MainT, MainT, MainT, MainT,
      HostsT, HostsT,
      HttpT, HttpT, HttpT, HttpT, HttpT,
      TlsT, TlsT, TlsT, TlsT, TlsT, TlsT, TlsT,
      MainT]"

section \<open>Properties of the target registry\<close>

lemma dom_makeTargetMap_loop:
  "dom (makeTargetMap_loop parse hosts m) =
     dom m \<union> Name ` set (filter (accepted_target parse) hosts)"
proof (induction hosts arbitrary: m)
  case Nil
  show ?case by simp
next
  case (Cons h hs)
  show ?case
    by (cases "parse (DefaultTarget h)")
       (auto simp: Cons.IH accepted_target_def)
qed

lemma ToLower_sample: "ascii_ToLower ''A.test'' = ''a.test''"
  by (simp add: ascii_ToLower_def lower_byte_def)

lemma ToLower_fixed:
  "ascii_ToLower ''a.test'' = ''a.test''" "ascii_ToLower ''b.test'' = ''b.test''"
  "ascii_ToLower ''c.test'' = ''c.test''"
  by (simp_all add: ascii_ToLower_def lower_byte_def)

lemma makeTargetMap_dom:
  "dom (targetMap (makeTargetMap parse hosts s)) = Name ` set (filter (accepted_target parse) hosts)"
  by (simp add: makeTargetMap_def dom_makeTargetMap_loop)

lemma spec_keys_sample: "spec_registry_keys ascii_ToLower parse_sample sample_hosts = {''a.test''}"
  by (auto simp: spec_registry_keys_def sample_hosts_def parse_sample_def IsAbs_def empty_URL_def
      ToLower_fixed)

text \<open>
  C1, for the part that the code has by design. For a list of entries whose names are
  in lower case already, the keys of the registry that \<open>makeTargetMap\<close> builds are
  exactly the lower-case names of the entries whose \<open>DefaultTarget\<close> is not empty and
  for which \<^verbatim>\<open>url.Parse\<close> returns no error. The parsed URL is not asked to be
  absolute: a relative reference that parses gives a key as well.
\<close>

theorem makeTargetMap_keys:
  assumes "\<forall>h \<in> set hosts. lower (Name h) = Name h"
  shows "dom (targetMap (makeTargetMap parse hosts s))
           = (\<lambda>h. lower (Name h)) ` set (filter (accepted_target parse) hosts)"
proof -
  from assms have "(\<lambda>h. lower (Name h)) ` set (filter (accepted_target parse) hosts)
      = Name ` set (filter (accepted_target parse) hosts)"
    by (intro image_cong) auto
  then show ?thesis by (simp add: makeTargetMap_dom)
qed

theorem makeTargetMap_keys_witness:
  "list_all (\<lambda>h. ascii_ToLower (Name h) = Name h) sample_hosts
   \<and> (\<lambda>h. ascii_ToLower (Name h)) ` set (filter (accepted_target parse_sample) sample_hosts)
       = {''a.test'', ''b.test''}
   \<and> dom (targetMap (makeTargetMap parse_sample sample_hosts new_Service)) = {''a.test'', ''b.test''}"
proof -
  have low: "\<forall>h \<in> set sample_hosts. ascii_ToLower (Name h) = Name h"
    by (simp add: sample_hosts_def ToLower_fixed)
  have low': "list_all (\<lambda>h. ascii_ToLower (Name h) = Name h) sample_hosts"
    by (simp add: sample_hosts_def ToLower_fixed)
  have keys: "(\<lambda>h. ascii_ToLower (Name h)) ` set (filter (accepted_target parse_sample) sample_hosts)
       = {''a.test'', ''b.test''}"
    by (simp add: sample_hosts_def accepted_target_def parse_sample_def ToLower_fixed)
  from makeTargetMap_keys [OF low, of parse_sample new_Service] low' keys show ?thesis
    by simp
qed

text \<open>
  C1, as the specification words it, fails: with the entries \<open>a.test\<close> (an absolute
  target) and \<open>b.test\<close> (the relative target \<open>/up\<close>), both named in lower case, the
  registry has the keys \<open>a.test\<close> and \<open>b.test\<close>, where the specification expects the
  one key \<open>a.test\<close>.
\<close>

theorem makeTargetMap_keys_counterexample:
  "dom (targetMap (makeTargetMap parse_sample sample_hosts new_Service)) = {''a.test'', ''b.test''}
   \<and> spec_registry_keys ascii_ToLower parse_sample sample_hosts = {''a.test''}
   \<and> dom (targetMap (makeTargetMap parse_sample sample_hosts new_Service))
       \<noteq> spec_registry_keys ascii_ToLower parse_sample sample_hosts"
  apply (simp add: spec_keys_sample)
  apply (auto simp: makeTargetMap_def sample_hosts_def parse_sample_def)
  done

section \<open>Properties of the Director\<close>

text \<open>
  C2. The Director looks the lower-cased host of the request up in the registry. On a
  hit it sets the scheme and the host of the request's URL to those of the target and
  changes nothing else of the request (path and query among the rest); on a miss the
  request stays as it is. This holds for every request and whatever
  \<^verbatim>\<open>strings.ToLower\<close> returns for its host.
\<close>

theorem Director_rewrite:
  "(targetMap s (lower (req_Host req)) = Some target \<longrightarrow>
      Scheme (req_URL (Director lower s req)) = Scheme target \<and>
      Host (req_URL (Director lower s req)) = Host target \<and>
      Path (req_URL (Director lower s req)) = Path (req_URL req) \<and>
      RawQuery (req_URL (Director lower s req)) = RawQuery (req_URL req) \<and>
      Director lower s req
        = req\<lparr>req_URL := (req_URL req)\<lparr>Scheme := Scheme target, Host := Host target\<rparr>\<rparr>)
   \<and> (targetMap s (lower (req_Host req)) = None \<longrightarrow> Director lower s req = req)"
  by (simp add: Director_def)

theorem Director_rewrite_witness:
  "targetMap routed_Service (ascii_ToLower (req_Host (sample_Request ''A.test'')))
     = Some (empty_URL\<lparr>Scheme := ''http'', Host := ''127.0.0.1:9001''\<rparr>)
   \<and> Scheme (req_URL (Director ascii_ToLower routed_Service (sample_Request ''A.test''))) = ''http''
   \<and> Host (req_URL (Director ascii_ToLower routed_Service (sample_Request ''A.test'')))
       = ''127.0.0.1:9001''
   \<and> Path (req_URL (Director ascii_ToLower routed_Service (sample_Request ''A.test'')))
       = ''/index.html''
   \<and> RawQuery (req_URL (Director ascii_ToLower routed_Service (sample_Request ''A.test''))) = ''q=1''
   \<and> targetMap routed_Service (ascii_ToLower (req_Host (sample_Request ''c.test''))) = None
   \<and> Director ascii_ToLower routed_Service (sample_Request ''c.test'') = sample_Request ''c.test''"
proof -
  have hit: "targetMap routed_Service (ascii_ToLower (req_Host (sample_Request ''A.test'')))
     = Some (empty_URL\<lparr>Scheme := ''http'', Host := ''127.0.0.1:9001''\<rparr>)"
    by (simp add: routed_Service_def new_Service_def sample_Request_def ToLower_sample)
  have miss: "targetMap routed_Service (ascii_ToLower (req_Host (sample_Request ''c.test''))) = None"
    by (simp add: routed_Service_def new_Service_def sample_Request_def ToLower_fixed)
  from Director_rewrite [of routed_Service ascii_ToLower "sample_Request ''A.test''"
        "empty_URL\<lparr>Scheme := ''http'', Host := ''127.0.0.1:9001''\<rparr>"] hit
  have a: "Scheme (req_URL (Director ascii_ToLower routed_Service (sample_Request ''A.test''))) = ''http''
   \<and> Host (req_URL (Director ascii_ToLower routed_Service (sample_Request ''A.test'')))
       = ''127.0.0.1:9001''
   \<and> Path (req_URL (Director ascii_ToLower routed_Service (sample_Request ''A.test'')))
       = ''/index.html''
   \<and> RawQuery (req_URL (Director ascii_ToLower routed_Service (sample_Request ''A.test''))) = ''q=1''"
    by (simp add: sample_Request_def empty_URL_def)
  from Director_rewrite [of routed_Service ascii_ToLower "sample_Request ''c.test''"] miss
  have b: "Director ascii_ToLower routed_Service (sample_Request ''c.test'') = sample_Request ''c.test''"
    by simp
  from hit miss a b show ?thesis by simp
qed

text \<open>
  The registry and the Director together, on a name with a capital: the entry
  \<open>A.test\<close> is stored under \<open>A.test\<close>, the Director asks for \<open>a.test\<close>, and a request
  for that host, however it is written, passes through as it came.
\<close>

lemma capital_name_unrouted:
  "dom (targetMap (makeTargetMap parse_sample capital_hosts new_Service)) = {''A.test''}
   \<and> Director ascii_ToLower (makeTargetMap parse_sample capital_hosts new_Service)
         (sample_Request ''A.test'') = sample_Request ''A.test''
   \<and> Director ascii_ToLower (makeTargetMap parse_sample capital_hosts new_Service)
         (sample_Request ''a.test'') = sample_Request ''a.test''"
  by (simp add: makeTargetMap_dom capital_hosts_def accepted_target_def parse_sample_def
      Director_def makeTargetMap_def sample_Request_def ToLower_sample ToLower_fixed)

section \<open>Properties of the TLS material loader\<close>




section \<open>Properties of the error handler\<close>

lemma DetectContentType_div:
  "DetectContentType other (''<div '' @ rest) = ''text/html; charset=utf-8''"
  by (simp add: DetectContentType_def htmlSigs_def isWS_def isTT_def is_capital_def fold_byte_def)

lemma bad_gateway_html_div: "bad_gateway_html msg = ''<div '' @ drop 5 (bad_gateway_html msg)"
  by (simp add: bad_gateway_html_def)

lemma bad_gateway_sniff:
  "DetectContentType other (bad_gateway_html err) = ''text/html; charset=utf-8''"
  by (subst bad_gateway_html_div) (rule DetectContentType_div)

lemma bad_gateway_nonempty: "bad_gateway_html err \<noteq> []"
  by (simp add: bad_gateway_html_def)

lemma error_response_fresh:
  assumes "fresh_writer w"
  shows "error_response other s w r err =
     w\<lparr>wroteHeader := True, status := 502, cw_header := rw_Header w,
       sent_header := Some ((rw_Header w)(''Content-Type'' \<mapsto> [''text/html; charset=utf-8''])),
       sent_body := (if rw_Method w = ''HEAD'' then [] else bad_gateway_html err)\<rparr>"
proof (cases "length (bad_gateway_html err) \<le> 2048")
  case True
  with assms bad_gateway_nonempty [of err] bad_gateway_sniff [of other err] show ?thesis
    by (simp add: error_response_def ErrorHandler_def finishRequest_def Write_def WriteHeader_def
        bufw_Write_def cw_Write_def cw_writeHeader_def header_block_def fresh_writer_def
        bodyAllowedForStatus_def Let_def)
next
  case False
  with assms bad_gateway_nonempty [of err] bad_gateway_sniff [of other err] show ?thesis
    by (simp add: error_response_def ErrorHandler_def finishRequest_def Write_def WriteHeader_def
        bufw_Write_def cw_Write_def cw_writeHeader_def header_block_def fresh_writer_def
        bodyAllowedForStatus_def Let_def)
qed

text \<open>
  C9, as the code has it. When forwarding fails, the handler answers on the writer of
  that request, which has had no answer yet. The client gets the status 502 and a
  header block with the \<open>Content-Type\<close> \<open>text/html; charset=utf-8\<close>, which the
  writer finds by looking at the page, the handler setting no header of its own. For
  every method but \<open>HEAD\<close> the body is the page with the heading
  \<open><h2>Bad Gateway</h2>\<close> and, after it, the text of the error; for \<open>HEAD\<close> no body
  goes out. The handler leaves the service and the request as they are: the writer of
  this one request is all it changes.
\<close>

theorem ErrorHandler_bad_gateway:
  assumes "fresh_writer w"
  shows "status (error_response other s w r err) = 502
    \<and> sent_header (error_response other s w r err)
        = Some ((rw_Header w)(''Content-Type'' \<mapsto> [''text/html; charset=utf-8'']))
    \<and> (rw_Method w \<noteq> ''HEAD'' \<longrightarrow>
         sent_body (error_response other s w r err)
           = ''<div style='' @ [CHR 0x22] @ ''text-align: center'' @ [CHR 0x22] @ ''>''
             @ ''<h2>Bad Gateway</h2>'' @ ''<p>'' @ err @ ''</p>'')
    \<and> (rw_Method w = ''HEAD'' \<longrightarrow> sent_body (error_response other s w r err) = [])
    \<and> out_service (ErrorHandler other s w r err) = s
    \<and> out_request (ErrorHandler other s w r err) = r"
  by (simp add: error_response_fresh [OF assms] ErrorHandler_def) (simp add: bad_gateway_html_def)

theorem ErrorHandler_bad_gateway_witness:
  "fresh_writer (new_ResponseWriter ''GET'')
   \<and> status (error_response (\<lambda>d. ''application/octet-stream'') routed_Service
        (new_ResponseWriter ''GET'') (sample_Request ''a.test'') ''connection refused'') = 502
   \<and> sent_header (error_response (\<lambda>d. ''application/octet-stream'') routed_Service
        (new_ResponseWriter ''GET'') (sample_Request ''a.test'') ''connection refused'')
       = Some [''Content-Type'' \<mapsto> [''text/html; charset=utf-8'']]
   \<and> sent_body (error_response (\<lambda>d. ''application/octet-stream'') routed_Service
        (new_ResponseWriter ''GET'') (sample_Request ''a.test'') ''connection refused'')
       = ''<div style='' @ [CHR 0x22] @ ''text-align: center'' @ [CHR 0x22]
         @ ''><h2>Bad Gateway</h2><p>connection refused</p>''
   \<and> out_service (ErrorHandler (\<lambda>d. ''application/octet-stream'') routed_Service
        (new_ResponseWriter ''GET'') (sample_Request ''a.test'') ''connection refused'')
       = routed_Service
   \<and> fresh_writer (new_ResponseWriter ''HEAD'')
   \<and> sent_body (error_response (\<lambda>d. ''application/octet-stream'') routed_Service
        (new_ResponseWriter ''HEAD'') (sample_Request ''a.test'') ''connection refused'') = []"
proof -
  have f: "fresh_writer (new_ResponseWriter ''GET'')" and g: "fresh_writer (new_ResponseWriter ''HEAD'')"
    by (simp_all add: fresh_writer_def new_ResponseWriter_def header_Get_def)
  have m: "rw_Method (new_ResponseWriter ''GET'') \<noteq> ''HEAD''"
    and n: "rw_Method (new_ResponseWriter ''HEAD'') = ''HEAD''"
    and h: "rw_Header (new_ResponseWriter ''GET'') = Map.empty"
    by (simp_all add: new_ResponseWriter_def)
  from ErrorHandler_bad_gateway [OF f, of "\<lambda>d. ''application/octet-stream''" routed_Service
      "sample_Request ''a.test''" "''connection refused''"]
    ErrorHandler_bad_gateway [OF g, of "\<lambda>d. ''application/octet-stream''" routed_Service
      "sample_Request ''a.test''" "''connection refused''"] f g m n h
  show ?thesis
    by simp
qed

text \<open>
  C9, as the specification words it, fails for a \<open>HEAD\<close> request: the answer has the
  status 502 and no body, so no heading and no error text in it.
\<close>

theorem ErrorHandler_bad_gateway_counterexample:
  "fresh_writer (new_ResponseWriter ''HEAD'')
   \<and> status (error_response (\<lambda>d. ''application/octet-stream'') new_Service
        (new_ResponseWriter ''HEAD'') (sample_Request ''a.test'') ''connection refused'') = 502
   \<and> sent_body (error_response (\<lambda>d. ''application/octet-stream'') new_Service
        (new_ResponseWriter ''HEAD'') (sample_Request ''a.test'') ''connection refused'') = []"
  by (simp add: error_response_fresh fresh_writer_def new_ResponseWriter_def header_Get_def)

section \<open>Properties of the hosts file writer\<close>

lemma WriteHostsFile_loop_buffer:
  "WriteHostsFile_loop domains buf = (buf @ concat (map hosts_line domains), None)"
  by (induction domains arbitrary: buf) (simp_all add: Buffer_WriteString_def)

text \<open>
  C10. For a list of domains that is not empty, when \<^verbatim>\<open>/etc/hosts\<close> opens,
  \<open>WriteHostsFile\<close> returns nil, the file has the content it had, and the lines
  \<open>127.0.0.1 <domain> # Auto generated by local proxy\<close> stand, after a first line
  break, in the buffer alone.
\<close>

theorem WriteHostsFile_leaves_file:
  "domains \<noteq> [] \<Longrightarrow>
   WriteHostsFile None content domains =
     \<lparr>returned_err = None, file_after = content,
      data_buffer = Some ([CHR 0x0A] @ concat (map hosts_line domains))\<rparr>"
  by (simp add: WriteHostsFile_def WriteHostsFile_loop_buffer)

theorem WriteHostsFile_leaves_file_witness:
  "[''a.test'', ''b.test''] \<noteq> ([] :: string list) \<and>
   returned_err (WriteHostsFile None ''127.0.0.1 localhost'' [''a.test'', ''b.test'']) = None \<and>
   file_after (WriteHostsFile None ''127.0.0.1 localhost'' [''a.test'', ''b.test''])
     = ''127.0.0.1 localhost'' \<and>
   data_buffer (WriteHostsFile None ''127.0.0.1 localhost'' [''a.test'', ''b.test''])
     = Some ([CHR 0x0A] @ ''127.0.0.1 a.test # Auto generated by local proxy'' @ [CHR 0x0A]
         @ ''127.0.0.1 b.test # Auto generated by local proxy'' @ [CHR 0x0A])"
  using WriteHostsFile_leaves_file [of "[''a.test'', ''b.test'']" "''127.0.0.1 localhost''"]
  by (simp add: hosts_line_def)

section \<open>Properties of shutdown\<close>

lemma ShutdownServer_state:
  "service_after (ShutdownServer env s) =
     s\<lparr>httpServerRunning := (httpServerRunning s \<and> httpServer s = None),
       tlsServerRunning := (tlsServerRunning s \<and> tlsServer s = None)\<rparr>"
  by (cases "httpServer s"; cases "tlsServer s") (simp_all add: ShutdownServer_def)

lemma ShutdownServer_call_effects:
  "call_effects (ShutdownServer env s) =
     (if httpServer s = None then [] else CallShutdown HTTP # report (Shutdown_err env HTTP))
     @ (if tlsServer s = None then [] else CallShutdown TLS # report (Shutdown_err env TLS))"
  by (cases "httpServer s"; cases "tlsServer s") (simp_all add: ShutdownServer_def)

lemma ShutdownServer_detached:
  "detached_effects (ShutdownServer env s) = CallRemoveHosts # report (removeHosts_err env)"
  by (cases "httpServer s"; cases "tlsServer s")
     (simp_all add: ShutdownServer_def removeHosts_goroutine_def)

text \<open>
  C7, as the code has it. On a service whose running flags are set only for servers
  that were created, a second \<open>ShutdownServer\<close> leaves the service as the first one left
  it, with both flags false. The second call asks each created server to shut down
  again and starts the removal of the hosts file records again; it reports no error
  when these calls return none.
\<close>

theorem ShutdownServer_twice:
  assumes "servers_created s"
  shows "service_after (ShutdownServer env2 (service_after (ShutdownServer env1 s)))
           = service_after (ShutdownServer env1 s)
    \<and> httpServerRunning (service_after (ShutdownServer env2 (service_after (ShutdownServer env1 s)))) = False
    \<and> tlsServerRunning (service_after (ShutdownServer env2 (service_after (ShutdownServer env1 s)))) = False
    \<and> (Shutdown_err env2 HTTP = None \<and> Shutdown_err env2 TLS = None \<and> removeHosts_err env2 = None
        \<longrightarrow> error_reports (call_effects (ShutdownServer env2 (service_after (ShutdownServer env1 s)))
              @ detached_effects (ShutdownServer env2 (service_after (ShutdownServer env1 s)))) = [])"
  using assms
  by (auto simp: ShutdownServer_state ShutdownServer_call_effects ShutdownServer_detached
      servers_created_def error_reports_def report_def)

theorem ShutdownServer_twice_witness:
  "servers_created running_Service
   \<and> service_after (ShutdownServer quiet_env (service_after (ShutdownServer quiet_env running_Service)))
       = service_after (ShutdownServer quiet_env running_Service)
   \<and> httpServerRunning (service_after (ShutdownServer quiet_env
         (service_after (ShutdownServer quiet_env running_Service)))) = False
   \<and> tlsServerRunning (service_after (ShutdownServer quiet_env
         (service_after (ShutdownServer quiet_env running_Service)))) = False
   \<and> Shutdown_err quiet_env HTTP = None \<and> Shutdown_err quiet_env TLS = None
   \<and> removeHosts_err quiet_env = None
   \<and> error_reports
        (call_effects (ShutdownServer quiet_env (service_after (ShutdownServer quiet_env running_Service)))
         @ detached_effects (ShutdownServer quiet_env
             (service_after (ShutdownServer quiet_env running_Service)))) = []"
proof -
  have c: "servers_created running_Service"
    by (simp add: servers_created_def running_Service_def new_Service_def)
  have q: "Shutdown_err quiet_env HTTP = None \<and> Shutdown_err quiet_env TLS = None
     \<and> removeHosts_err quiet_env = None"
    by (simp add: quiet_env_def)
  from ShutdownServer_twice [OF c, of quiet_env quiet_env] c q show ?thesis
    by blast
qed

text \<open>
  C7, as the specification words it, fails: after a first shutdown of a service with
  both servers up, a second call during which the removal of the hosts file records
  fails reports that error.
\<close>

theorem ShutdownServer_twice_counterexample:
  "error_reports
     (call_effects (ShutdownServer denied_env (service_after (ShutdownServer quiet_env running_Service)))
      @ detached_effects (ShutdownServer denied_env (service_after (ShutdownServer quiet_env running_Service))))
   = [Emit (EmitError ''open /etc/hosts: permission denied'')]"
  by (simp add: ShutdownServer_state ShutdownServer_call_effects ShutdownServer_detached
      error_reports_def report_def denied_env_def quiet_env_def running_Service_def new_Service_def)

text \<open>
  C8, as the code has it. On a service without servers, \<open>ShutdownServer\<close> changes
  nothing of the service, asks no server to shut down and reports nothing itself; it
  still starts the goroutine that removes the hosts file records, and that goroutine
  reports the error of the removal when there is one.
\<close>

theorem ShutdownServer_idle:
  assumes "httpServer s = None" and "tlsServer s = None"
  shows "service_after (ShutdownServer env s) = s
    \<and> call_effects (ShutdownServer env s) = []
    \<and> detached_effects (ShutdownServer env s) = CallRemoveHosts # report (removeHosts_err env)"
  using assms by (simp add: ShutdownServer_def removeHosts_goroutine_def)

theorem ShutdownServer_idle_witness:
  "httpServer new_Service = None \<and> tlsServer new_Service = None
   \<and> service_after (ShutdownServer quiet_env new_Service) = new_Service
   \<and> call_effects (ShutdownServer quiet_env new_Service) = []
   \<and> detached_effects (ShutdownServer quiet_env new_Service) = [CallRemoveHosts]"
proof -
  have h: "httpServer new_Service = None" and t: "tlsServer new_Service = None"
    by (simp_all add: new_Service_def)
  from ShutdownServer_idle [OF h t, of quiet_env] h t show ?thesis
    by (simp add: report_def quiet_env_def)
qed

text \<open>
  C8, as the specification words it, fails: on the service without servers, with a
  removal of the hosts file records that fails, the call does act (it runs the removal)
  and an error goes to the front end.
\<close>

theorem ShutdownServer_idle_counterexample:
  "httpServer new_Service = None \<and> tlsServer new_Service = None
   \<and> call_effects (ShutdownServer denied_env new_Service)
       @ detached_effects (ShutdownServer denied_env new_Service)
     = [CallRemoveHosts, Emit (EmitError ''open /etc/hosts: permission denied'')]"
  by (simp add: ShutdownServer_def removeHosts_goroutine_def report_def denied_env_def new_Service_def)

section \<open>Invariants of a start\<close>

text \<open>Each invariant holds at the start and is kept by a step of every thread.\<close>

lemma filter_emitted_warnings:
  "filter (\<lambda>x. x = (t, CallDone)) (map (\<lambda>w. (TlsT, Emit w)) ws) = []"
  "filter (\<lambda>x. x = (t, CallServe p)) (map (\<lambda>w. (TlsT, Emit w)) ws) = []"
  by (induction ws) simp_all

lemma barrier_inv_start: "barrier_inv (start_config s)"
  by (simp add: barrier_inv_def start_config_def dones_def serves_def)

lemma barrier_inv_main: "barrier_inv c \<Longrightarrow> barrier_inv (main_step env c)"
  unfolding barrier_inv_def main_step_def dones_def serves_def
  by (cases "main_at c") (auto split: if_splits)

lemma barrier_inv_hosts: "barrier_inv c \<Longrightarrow> barrier_inv (hosts_step env c)"
  unfolding barrier_inv_def hosts_step_def dones_def serves_def emit_def
  by (cases "hosts_at c") (auto split: option.splits)

lemma barrier_inv_http: "barrier_inv c \<Longrightarrow> barrier_inv (http_step env c)"
  unfolding barrier_inv_def http_step_def dones_def serves_def emit_def serve_report_def
  by (cases "http_at c"; cases "main_at c")
     (auto split: option.splits serve_error.splits)

lemma barrier_inv_tls: "barrier_inv c \<Longrightarrow> barrier_inv (tls_step env c)"
  unfolding barrier_inv_def tls_step_def dones_def serves_def emit_def serve_report_def
  by (cases "tls_at c"; cases "main_at c")
     (auto split: option.splits serve_error.splits prod.splits simp: filter_emitted_warnings)

lemma barrier_inv_step: "barrier_inv c \<Longrightarrow> barrier_inv (step env c t)"
  by (cases t) (simp_all add: step_def barrier_inv_main barrier_inv_hosts barrier_inv_http barrier_inv_tls)

lemma barrier_inv_run: "barrier_inv c \<Longrightarrow> barrier_inv (run env sched c)"
  unfolding run_def by (induction sched arbitrary: c) (simp_all add: barrier_inv_step)

lemma loadTLSConfig_loop_warns:
  "snd (loadTLSConfig_loop load hosts (certs, warns)) =
     warns @ map load_warning (filter (\<lambda>h. tls_eligible h \<and> load_fails load h) hosts)"
proof (induction hosts arbitrary: certs warns)
  case Nil
  show ?case by simp
next
  case (Cons h hs)
  show ?case
    by (cases "load (TLSCertFile h) (TLSKeyFile h)")
       (simp_all add: Cons.IH tls_eligible_def load_fails_def)
qed

lemma loadTLSConfig_warns:
  "snd (loadTLSConfig load hosts) =
     map load_warning (filter (\<lambda>h. tls_eligible h \<and> load_fails load h) hosts)"
  using loadTLSConfig_loop_warns [of load hosts "[]" "[]"]
  by (cases "loadTLSConfig_loop load hosts ([], [])") (simp add: loadTLSConfig_def)

lemma list_all_warnings:
  "list_all tls_quiet (map (\<lambda>w. (TlsT, Emit w)) (snd (loadTLSConfig load hosts)))"
  by (simp add: loadTLSConfig_warns list_all_iff load_warning_def)

lemma tls_inv_start: "tls_inv env (start_config s)"
  by (simp add: tls_inv_def start_config_def)

lemma tls_inv_main: "tls_inv env c \<Longrightarrow> tls_inv env (main_step env c)"
  unfolding tls_inv_def main_step_def makeTargetMap_def
  by (cases "main_at c") (auto split: if_splits)

lemma tls_inv_hosts: "tls_inv env c \<Longrightarrow> tls_inv env (hosts_step env c)"
  unfolding tls_inv_def hosts_step_def emit_def
  by (cases "hosts_at c") (auto split: option.splits)

lemma tls_inv_http: "tls_inv env c \<Longrightarrow> tls_inv env (http_step env c)"
  unfolding tls_inv_def http_step_def emit_def serve_report_def
  by (cases "http_at c") (auto split: option.splits serve_error.splits)

lemma tls_inv_tls: "tls_inv env c \<Longrightarrow> tls_inv env (tls_step env c)"
  unfolding tls_inv_def tls_step_def emit_def serve_report_def
  using list_all_warnings [of "LoadX509KeyPair env" "Hosts env"]
  by (cases "tls_at c")
     (auto split: option.splits serve_error.splits prod.splits simp: loaded_certs_def)


lemma http_inv_start: "httpServerRunning s = False \<Longrightarrow> http_inv env (start_config s)"
  by (simp add: http_inv_def start_config_def)

lemma http_inv_main:
  "http_started (main_at c) \<or> http_at c = H_idle \<Longrightarrow> http_inv env c \<Longrightarrow> http_inv env (main_step env c)"
  unfolding http_inv_def main_step_def makeTargetMap_def
  by (cases "main_at c") (auto split: if_splits)

lemma http_inv_hosts: "http_inv env c \<Longrightarrow> http_inv env (hosts_step env c)"
  unfolding http_inv_def hosts_step_def emit_def
  by (cases "hosts_at c") (auto split: option.splits)

lemma http_inv_http: "http_inv env c \<Longrightarrow> http_inv env (http_step env c)"
  unfolding http_inv_def http_step_def emit_def serve_report_def
  by (cases "http_at c") (auto split: option.splits serve_error.splits)

lemma http_inv_tls: "http_inv env c \<Longrightarrow> http_inv env (tls_step env c)"
  unfolding http_inv_def tls_step_def emit_def serve_report_def
  by (cases "tls_at c")
     (auto split: option.splits serve_error.splits prod.splits)

lemma tls_flag_inv_start: "tlsServerRunning s = False \<Longrightarrow> tls_flag_inv (start_config s)"
  by (simp add: tls_flag_inv_def start_config_def)

lemma tls_flag_inv_main:
  "tls_started (main_at c) \<or> tls_at c = T_idle \<Longrightarrow> tls_flag_inv c \<Longrightarrow> tls_flag_inv (main_step env c)"
  unfolding tls_flag_inv_def main_step_def makeTargetMap_def
  by (cases "main_at c") (auto split: if_splits)

lemma tls_flag_inv_hosts: "tls_flag_inv c \<Longrightarrow> tls_flag_inv (hosts_step env c)"
  unfolding tls_flag_inv_def hosts_step_def emit_def
  by (cases "hosts_at c") (auto split: option.splits)

lemma tls_flag_inv_http: "tls_flag_inv c \<Longrightarrow> tls_flag_inv (http_step env c)"
  unfolding tls_flag_inv_def http_step_def emit_def serve_report_def
  by (cases "http_at c") (auto split: option.splits serve_error.splits)

lemma tls_flag_inv_tls: "tls_flag_inv c \<Longrightarrow> tls_flag_inv (tls_step env c)"
  unfolding tls_flag_inv_def tls_step_def emit_def serve_report_def
  by (cases "tls_at c")
     (auto split: option.splits serve_error.splits prod.splits)


lemma tls_inv_step: "tls_inv env c \<Longrightarrow> tls_inv env (step env c t)"
  by (cases t) (simp_all add: step_def tls_inv_main tls_inv_hosts tls_inv_http tls_inv_tls)

lemma http_inv_step: "barrier_inv c \<Longrightarrow> http_inv env c \<Longrightarrow> http_inv env (step env c t)"
  by (cases t)
     (simp_all add: step_def http_inv_main http_inv_hosts http_inv_http http_inv_tls barrier_inv_def)

lemma tls_flag_inv_step: "barrier_inv c \<Longrightarrow> tls_flag_inv c \<Longrightarrow> tls_flag_inv (step env c t)"
  by (cases t)
     (simp_all add: step_def tls_flag_inv_main tls_flag_inv_hosts tls_flag_inv_http
        tls_flag_inv_tls barrier_inv_def)

lemma created_inv_start: "servers_created s \<Longrightarrow> created_inv (start_config s)"
  by (simp add: created_inv_def start_config_def)

lemma created_inv_main:
  "http_started (main_at c) \<or> http_at c = H_idle \<Longrightarrow> tls_started (main_at c) \<or> tls_at c = T_idle \<Longrightarrow>
   created_inv c \<Longrightarrow> created_inv (main_step env c)"
  unfolding created_inv_def main_step_def makeTargetMap_def servers_created_def
  by (cases "main_at c") (auto split: if_splits)

lemma created_inv_hosts: "created_inv c \<Longrightarrow> created_inv (hosts_step env c)"
  unfolding created_inv_def hosts_step_def emit_def servers_created_def
  by (cases "hosts_at c") (auto split: option.splits)

lemma created_inv_http: "created_inv c \<Longrightarrow> created_inv (http_step env c)"
  unfolding created_inv_def http_step_def emit_def serve_report_def servers_created_def
  by (cases "http_at c") (auto split: option.splits serve_error.splits)

lemma created_inv_tls: "created_inv c \<Longrightarrow> created_inv (tls_step env c)"
  unfolding created_inv_def tls_step_def emit_def serve_report_def servers_created_def
  by (cases "tls_at c")
     (auto split: option.splits serve_error.splits prod.splits)

lemma created_inv_step: "barrier_inv c \<Longrightarrow> created_inv c \<Longrightarrow> created_inv (step env c t)"
  by (cases t)
     (simp_all add: step_def created_inv_main created_inv_hosts created_inv_http
        created_inv_tls barrier_inv_def)

lemma invs_run:
  "barrier_inv c \<Longrightarrow> tls_inv env c \<Longrightarrow>
     barrier_inv (run env sched c) \<and> tls_inv env (run env sched c)
     \<and> (http_inv env c \<longrightarrow> http_inv env (run env sched c))
     \<and> (tls_flag_inv c \<longrightarrow> tls_flag_inv (run env sched c))
     \<and> (created_inv c \<longrightarrow> created_inv (run env sched c))"
  unfolding run_def
proof (induction sched arbitrary: c)
  case Nil
  show ?case using Nil by simp
next
  case (Cons t ts)
  have b: "barrier_inv (step env c t)" using Cons.prems(1) by (rule barrier_inv_step)
  have s: "tls_inv env (step env c t)" using Cons.prems(2) by (rule tls_inv_step)
  from Cons.IH [OF b s] Cons.prems(1) show ?case
    by (auto simp: http_inv_step tls_flag_inv_step created_inv_step)
qed

section \<open>Runs of a start\<close>

lemma run_append: "run env (xs @ ys) c = run env ys (run env xs c)"
  by (simp add: run_def)

lemma run_Cons: "run env (t # ts) c = run env ts (step env c t)"
  by (simp add: run_def)

lemma run_Nil: "run env [] c = c"
  by (simp add: run_def)

lemma main_prefix:
  "run env [MainT, MainT, MainT, MainT, MainT, MainT, MainT] (start_config s) =
     \<lparr>svc = (makeTargetMap (url_Parse env) (Hosts env) s)\<lparr>proxy := Some DirectorAndErrorHandler\<rparr>,
      wg = 2, main_at = M148, hosts_at = A113, http_at = H226, tls_at = T250,
      returned = None, trace = []\<rparr>"
  by (simp add: run_Cons run_Nil step_def main_step_def start_config_def)

lemma hosts_frame:
  "main_at (hosts_step env c) = main_at c \<and> http_at (hosts_step env c) = http_at c
   \<and> tls_at (hosts_step env c) = tls_at c"
  by (cases "hosts_at c") (simp_all add: hosts_step_def emit_def)

lemma http_frame:
  "main_at (http_step env c) = main_at c \<and> tls_at (http_step env c) = tls_at c"
  by (cases "http_at c") (simp_all add: http_step_def emit_def serve_report_def split: option.splits serve_error.splits)

lemma tls_frame:
  "main_at (tls_step env c) = main_at c \<and> http_at (tls_step env c) = http_at c"
  by (cases "tls_at c") (simp_all add: tls_step_def emit_def serve_report_def split: option.splits serve_error.splits prod.splits)

lemma http_reaches:
  "http_at c = H226 \<Longrightarrow> http_resolved (http_at (run env [HttpT, HttpT, HttpT, HttpT, HttpT] c))"
  by (cases "Listen_err env HTTP")
     (simp_all add: run_Cons run_Nil step_def http_step_def emit_def)

lemma tls_reaches:
  "tls_at c = T250 \<Longrightarrow>
   tls_resolved (tls_at (run env [TlsT, TlsT, TlsT, TlsT, TlsT, TlsT, TlsT] c))"
proof -
  obtain cfg warns where l: "loadTLSConfig (LoadX509KeyPair env) (Hosts env) = (cfg, warns)"
    by (cases "loadTLSConfig (LoadX509KeyPair env) (Hosts env)") auto
  assume "tls_at c = T250"
  then show ?thesis
    by (cases "Listen_err env TLS"; cases "Certificates cfg = []")
       (simp_all add: run_Cons run_Nil step_def tls_step_def emit_def l)
qed


lemma returned_frame:
  "returned (hosts_step env c) = returned c \<and> returned (http_step env c) = returned c
   \<and> returned (tls_step env c) = returned c"
  by (cases "hosts_at c"; cases "http_at c"; cases "tls_at c")
     (simp_all add: hosts_step_def http_step_def tls_step_def emit_def serve_report_def
        split: option.splits serve_error.splits prod.splits)

lemma returned_step:
  "barrier_inv c \<Longrightarrow> returned c = Some r \<Longrightarrow> returned (step env c t) = Some r"
  by (cases t) (auto simp: step_def returned_frame barrier_inv_def main_step_def)

lemma returned_run:
  "barrier_inv c \<Longrightarrow> returned c = Some r \<Longrightarrow> returned (run env sched c) = Some r"
proof (induction sched arbitrary: c)
  case Nil
  then show ?case by (simp add: run_Nil)
next
  case (Cons t ts)
  from Cons.prems have "barrier_inv (step env c t)" and "returned (step env c t) = Some r"
    by (simp_all add: barrier_inv_step returned_step)
  then show ?case by (simp add: run_Cons Cons.IH)
qed

lemma barrier_inv_StartServer: "barrier_inv (StartServer env sched s)"
  by (simp add: StartServer_def barrier_inv_run barrier_inv_start)

lemma barrier_opens:
  assumes "barrier_inv c" and "main_at c = M148"
    and "http_resolved (http_at c)" and "tls_resolved (tls_at c)"
  shows "main_at (main_step env c) = M150"
  using assms by (simp add: barrier_inv_def main_step_def)

lemma return_step:
  "main_at c = M150 \<Longrightarrow>
   returned (main_step env c) = Some (httpServerRunning (svc c) \<or> tlsServerRunning (svc c))
   \<and> svc (main_step env c) = svc c \<and> main_at (main_step env c) = M_returned"
  by (simp add: main_step_def)

lemma frame_run_two:
  "main_at (run env [HostsT, HostsT] c) = main_at c
   \<and> http_at (run env [HostsT, HostsT] c) = http_at c
   \<and> tls_at (run env [HostsT, HostsT] c) = tls_at c"
  by (simp add: run_Cons run_Nil step_def hosts_frame)

lemma frame_run_http:
  "main_at (run env [HttpT, HttpT, HttpT, HttpT, HttpT] c) = main_at c
   \<and> tls_at (run env [HttpT, HttpT, HttpT, HttpT, HttpT] c) = tls_at c"
  by (simp add: run_Cons run_Nil step_def http_frame)

lemma frame_run_tls:
  "main_at (run env [TlsT, TlsT, TlsT, TlsT, TlsT, TlsT, TlsT] c) = main_at c
   \<and> http_at (run env [TlsT, TlsT, TlsT, TlsT, TlsT, TlsT, TlsT] c) = http_at c"
  by (simp add: run_Cons run_Nil step_def tls_frame)

lemma sequential_schedule_split:
  "sequential_schedule =
     [MainT, MainT, MainT, MainT, MainT, MainT, MainT] @ [HostsT, HostsT]
     @ [HttpT, HttpT, HttpT, HttpT, HttpT] @ [TlsT, TlsT, TlsT, TlsT, TlsT, TlsT, TlsT]
     @ [MainT, MainT]"
  by (simp add: sequential_schedule_def)

lemma StartServer_returns: "returned (StartServer env sequential_schedule s) \<noteq> None"
proof -
  define c1 where "c1 = run env [MainT, MainT, MainT, MainT, MainT, MainT, MainT] (start_config s)"
  define c2 where "c2 = run env [HostsT, HostsT] c1"
  define c3 where "c3 = run env [HttpT, HttpT, HttpT, HttpT, HttpT] c2"
  define c4 where "c4 = run env [TlsT, TlsT, TlsT, TlsT, TlsT, TlsT, TlsT] c3"
  have all: "StartServer env sequential_schedule s = run env [MainT, MainT] c4"
    by (simp only: StartServer_def sequential_schedule_split run_append c1_def c2_def c3_def c4_def)
  have p1: "main_at c1 = M148 \<and> http_at c1 = H226 \<and> tls_at c1 = T250"
    by (simp add: c1_def main_prefix)
  have p2: "main_at c2 = M148 \<and> http_at c2 = H226 \<and> tls_at c2 = T250"
    using p1 by (simp add: c2_def frame_run_two)
  have p3: "main_at c3 = M148 \<and> http_resolved (http_at c3) \<and> tls_at c3 = T250"
    using p2 by (simp add: c3_def frame_run_http http_reaches)
  have p4: "main_at c4 = M148 \<and> http_resolved (http_at c4) \<and> tls_resolved (tls_at c4)"
    using p3 by (simp add: c4_def frame_run_tls tls_reaches)
  have inv: "barrier_inv c4"
    by (simp add: c4_def c3_def c2_def c1_def barrier_inv_run barrier_inv_start)
  from barrier_opens [OF inv] p4 have "main_at (main_step env c4) = M150"
    by simp
  from return_step [OF this] show ?thesis
    by (simp add: all run_Cons run_Nil step_def)
qed

section \<open>Properties of the start\<close>

lemma invs_StartServer:
  "barrier_inv (StartServer env sched s) \<and> tls_inv env (StartServer env sched s)
   \<and> (httpServerRunning s = False \<longrightarrow> http_inv env (StartServer env sched s))
   \<and> (tlsServerRunning s = False \<longrightarrow> tls_flag_inv (StartServer env sched s))
   \<and> (servers_created s \<longrightarrow> created_inv (StartServer env sched s))"
  using invs_run [OF barrier_inv_start tls_inv_start, of env sched s]
  by (simp add: StartServer_def http_inv_start tls_flag_inv_start created_inv_start)




lemma http_flag_bound: "http_flag_set pc \<Longrightarrow> http_bound pc"
  by (cases pc) simp_all

lemma tls_flag_bound: "tls_flag_set pc \<Longrightarrow> tls_bound pc"
  by (cases pc) simp_all

lemma tls_bound_certs: "tls_bound pc \<Longrightarrow> tls_path_ok env pc \<Longrightarrow> loaded_certs env \<noteq> []"
  by (cases pc) simp_all

lemma returned_choice:
  "returned (step env c t) = returned c
   \<or> returned (step env c t) = Some (httpServerRunning (svc c) \<or> tlsServerRunning (svc c))"
  by (cases t; cases "main_at c") (simp_all add: step_def returned_frame main_step_def)


text \<open>
  C5, as the code has it. The value that \<open>StartServer\<close> returns is the disjunction of the two running
  flags as they stand when line 150 runs: true exactly when one of the protocols runs
  at that moment. It has returned exactly when the main thread is past line 150. When
  the service starts with both flags down, the HTTP listen call fails, and the TLS side
  has no certificate or its listen call fails, both flags stay false and the value is
  not true. And \<open>StartServer\<close> does return: the schedule that runs each goroutine up
  to its serve loop ends with a returned value, in every environment.
\<close>

theorem StartServer_return_value:
  "(main_at (StartServer env pre s) = M150 \<longrightarrow>
      returned (StartServer env (pre @ MainT # post) s)
        = Some (httpServerRunning (svc (StartServer env pre s))
                \<or> tlsServerRunning (svc (StartServer env pre s))))
   \<and> (returned (StartServer env sched s) \<noteq> None) = (main_at (StartServer env sched s) = M_returned)
   \<and> (httpServerRunning s = False \<and> tlsServerRunning s = False
        \<and> Listen_err env HTTP \<noteq> None
        \<and> (loaded_certs env = [] \<or> Listen_err env TLS \<noteq> None)
       \<longrightarrow> httpServerRunning (svc (StartServer env sched s)) = False
           \<and> tlsServerRunning (svc (StartServer env sched s)) = False
           \<and> returned (StartServer env sched s) \<noteq> Some True)
   \<and> returned (StartServer env sequential_schedule s) \<noteq> None"
proof -
  have part1: "returned (StartServer env (pre @ MainT # post) s)
        = Some (httpServerRunning (svc (StartServer env pre s))
                \<or> tlsServerRunning (svc (StartServer env pre s)))"
    if at: "main_at (StartServer env pre s) = M150"
  proof -
    define c where "c = StartServer env pre s"
    have b: "barrier_inv (step env c MainT)"
      by (simp add: c_def barrier_inv_step barrier_inv_StartServer)
    from return_step [of c env] at
    have r: "returned (step env c MainT)
        = Some (httpServerRunning (svc c) \<or> tlsServerRunning (svc c))"
      by (simp add: c_def step_def)
    have "StartServer env (pre @ MainT # post) s = run env post (step env c MainT)"
      by (simp add: StartServer_def run_append run_Cons c_def)
    with returned_run [OF b r, of env post] show ?thesis
      by (simp add: c_def)
  qed
  have part2: "(returned (StartServer env sched s) \<noteq> None) = (main_at (StartServer env sched s) = M_returned)"
    using barrier_inv_StartServer [of env sched s] by (simp add: barrier_inv_def)
  have part3: "httpServerRunning (svc (StartServer env sched s)) = False
           \<and> tlsServerRunning (svc (StartServer env sched s)) = False
           \<and> returned (StartServer env sched s) \<noteq> Some True"
    if h0: "httpServerRunning s = False" and t0: "tlsServerRunning s = False"
      and hf: "Listen_err env HTTP \<noteq> None"
      and tf: "loaded_certs env = [] \<or> Listen_err env TLS \<noteq> None"
    for sched
  proof -
    have flags: "httpServerRunning (svc (StartServer env sch s)) = False
           \<and> tlsServerRunning (svc (StartServer env sch s)) = False" for sch
    proof -
      define c where "c = StartServer env sch s"
      from invs_StartServer [of env sch s] h0 t0
      have t: "tls_inv env c" and h: "http_inv env c" and f: "tls_flag_inv c"
        by (simp_all add: c_def)
      have "\<not> http_flag_set (http_at c)"
        using h hf http_flag_bound [of "http_at c"] by (auto simp: http_inv_def)
      moreover have "\<not> tls_flag_set (tls_at c)"
        using t tf tls_flag_bound [of "tls_at c"] tls_bound_certs [of "tls_at c" env]
        by (auto simp: tls_inv_def)
      ultimately show ?thesis using h f
        by (simp add: http_inv_def tls_flag_inv_def c_def)
    qed
    have "returned (StartServer env sched s) \<noteq> Some True"
    proof (induction sched rule: rev_induct)
      case Nil
      show ?case by (simp add: StartServer_def run_Nil start_config_def)
    next
      case (snoc t ts)
      have "StartServer env (ts @ [t]) s = step env (StartServer env ts s) t"
        by (simp add: StartServer_def run_append run_Cons run_Nil)
      with returned_choice [of env "StartServer env ts s" t] flags [of ts] snoc.IH
      show ?case by auto
    qed
    with flags show ?thesis by simp
  qed
  from part1 part2 part3 StartServer_returns show ?thesis
    by blast
qed

lemmas step_defs = StartServer_def run_def step_def main_step_def hosts_step_def http_step_def
  tls_step_def emit_def serve_report_def start_config_def

lemma sequential_schedule_last: "sequential_schedule = before_return @ MainT # []"
  by (simp add: sequential_schedule_def before_return_def)


lemma loaded_certs_busy: "loaded_certs busy_env = []"
  by (simp add: loaded_certs_def busy_env_def loadTLSConfig_def sample_hosts_def)


lemma up_before:
  "main_at (StartServer up_env before_return new_Service) = M150
   \<and> httpServerRunning (svc (StartServer up_env before_return new_Service)) = True
   \<and> tlsServerRunning (svc (StartServer up_env before_return new_Service)) = True"
  by (simp add: step_defs before_return_def up_env_def new_Service_def loadTLSConfig_def
      tls_hosts_def load_sample_def makeTargetMap_def)


lemma busy_run:
  "main_at (StartServer busy_env sequential_schedule new_Service) = M_returned"
  by (simp add: step_defs sequential_schedule_def busy_env_def new_Service_def loadTLSConfig_def
      sample_hosts_def load_sample_def makeTargetMap_def)

lemma served_Service_left:
  "svc (StartServer plain_env sequential_schedule new_Service) = served_Service"
  by (simp add: step_defs sequential_schedule_def plain_env_def new_Service_def loadTLSConfig_def
      sample_hosts_def load_sample_def makeTargetMap_def served_Service_def new_httpServer_def
      sample_Server_def)

lemma stale_run:
  "main_at (StartServer busy_env sequential_schedule served_Service) = M_returned
   \<and> http_at (StartServer busy_env sequential_schedule served_Service) = H_exit
   \<and> tls_at (StartServer busy_env sequential_schedule served_Service) = T_exit
   \<and> httpServerRunning (svc (StartServer busy_env sequential_schedule served_Service)) = True
   \<and> tlsServerRunning (svc (StartServer busy_env sequential_schedule served_Service)) = False
   \<and> returned (StartServer busy_env sequential_schedule served_Service) = Some True
   \<and> trace (StartServer busy_env sequential_schedule served_Service)
       = [(HostsT, CallAddHosts), (HttpT, CallListen HTTP 80),
          (HttpT, Emit (EmitError ''listen tcp :80: bind: address already in use'')),
          (HttpT, CallDone), (TlsT, CallDone)]"
  by (simp add: step_defs sequential_schedule_def busy_env_def served_Service_def loadTLSConfig_def
      sample_hosts_def load_sample_def makeTargetMap_def)
















theorem StartServer_return_value_witness:
  "main_at (StartServer up_env before_return new_Service) = M150
   \<and> httpServerRunning (svc (StartServer up_env before_return new_Service)) = True
   \<and> returned (StartServer up_env (before_return @ MainT # []) new_Service) = Some True
   \<and> httpServerRunning new_Service = False \<and> tlsServerRunning new_Service = False
   \<and> Listen_err busy_env HTTP \<noteq> None \<and> loaded_certs busy_env = []
   \<and> returned (StartServer busy_env sequential_schedule new_Service) = Some False"
proof -
  have stopped: "httpServerRunning new_Service = False \<and> tlsServerRunning new_Service = False"
    by (simp add: new_Service_def)
  have busy: "Listen_err busy_env HTTP \<noteq> None"
    by (simp add: busy_env_def)
  from StartServer_return_value [of up_env before_return new_Service "[]" sequential_schedule] up_before
  have a: "returned (StartServer up_env (before_return @ MainT # []) new_Service) = Some True"
    by simp
  from StartServer_return_value [of busy_env before_return new_Service "[]" sequential_schedule]
    stopped busy loaded_certs_busy busy_run
  have b: "returned (StartServer busy_env sequential_schedule new_Service) = Some False"
    by auto
  from a b up_before stopped busy loaded_certs_busy show ?thesis by simp
qed

text \<open>
  C5, as the specification words it, fails on the same second start: the HTTP listen
  call fails, the TLS side is skipped, and \<open>StartServer\<close> returns true.
\<close>

theorem StartServer_return_value_counterexample:
  "Listen_err busy_env HTTP = Some ''listen tcp :80: bind: address already in use''
   \<and> http_at (StartServer busy_env sequential_schedule served_Service) = H_exit
   \<and> loaded_certs busy_env = []
   \<and> tls_at (StartServer busy_env sequential_schedule served_Service) = T_exit
   \<and> thread_trace TlsT (StartServer busy_env sequential_schedule served_Service) = [CallDone]
   \<and> returned (StartServer busy_env sequential_schedule served_Service) = Some True"
  using stale_run loaded_certs_busy by (simp add: busy_env_def thread_trace_def)





text \<open>
  The running flags of a service stay with the servers that were created, through every
  start: the condition under which a shutdown clears both flags.
\<close>

lemma StartServer_servers_created:
  "servers_created s \<Longrightarrow> servers_created (svc (StartServer env sched s))"
  using invs_StartServer [of env sched s] by (simp add: created_inv_def)

end
